theory Spec2Isabelle
  imports Complex_Main
begin

section \<open>JavaScript values and option objects\<close>

text \<open>
  The values an option of the writer can hold. \<open>Num\<close> is a finite number (the reals
  stand for the doubles; rounding plays no part in what follows), \<open>NaN\<close> and
  \<open>Infinity\<close> are the two non-finite numbers a division can give, and \<open>Opaque\<close> is a
  function, an object or a non-empty string that is not a numeric literal (a colour such
  as '#555', a loader function): every such value is truthy and is NaN when read as a
  number.
\<close>

datatype jsval = Undefined | Null | Bool bool | Num real | NaN | Infinity | Opaque string

text \<open>What \<open>if (v)\<close> and \<open>!v\<close> test: null, undefined, false, 0 and NaN are falsy.\<close>

fun truthy :: "jsval \<Rightarrow> bool" where
  "truthy Undefined = False"
| "truthy Null = False"
| "truthy (Bool b) = b"
| "truthy (Num x) = (x \<noteq> 0)"
| "truthy NaN = False"
| "truthy Infinity = True"
| "truthy (Opaque s) = True"

text \<open>ToNumber, as the operator \<open>/\<close> applies it to an operand.\<close>

fun to_number :: "jsval \<Rightarrow> jsval" where
  "to_number Undefined = NaN"
| "to_number Null = Num 0"
| "to_number (Bool b) = Num (if b then 1 else 0)"
| "to_number (Num x) = Num x"
| "to_number NaN = NaN"
| "to_number Infinity = Infinity"
| "to_number (Opaque s) = NaN"

text \<open>The quotient \<open>x / v\<close> for a positive finite numerator \<open>x\<close>.\<close>

definition js_div :: "real \<Rightarrow> jsval \<Rightarrow> jsval" where
  "js_div x v =
     (case to_number v of
        Num d \<Rightarrow> if d = 0 then Infinity else Num (x / d)
      | Infinity \<Rightarrow> Num 0
      | _ \<Rightarrow> NaN)"

text \<open>
  An object is a finite map from property names to values; reading a property that is
  absent gives \<open>undefined\<close>.
\<close>

type_synonym obj = "string \<Rightarrow> jsval option"

definition get_prop :: "obj \<Rightarrow> string \<Rightarrow> jsval" where
  "get_prop ob k = (case ob k of None \<Rightarrow> Undefined | Some v \<Rightarrow> v)"

text \<open>
  Objects live in a store and are passed by reference (an index into the store), so that
  a function which writes into the object it was given can be told from one that writes
  into a copy.
\<close>

type_synonym store = "obj list"

definition deref :: "store \<Rightarrow> nat \<Rightarrow> obj" where
  "deref st r = (if r < length st then st ! r else Map.empty)"

definition new_object :: "store \<Rightarrow> nat \<times> store" where
  "new_object st = (length st, st @ [Map.empty])"

definition set_prop :: "store \<Rightarrow> nat \<Rightarrow> string \<Rightarrow> jsval \<Rightarrow> store" where
  "set_prop st r k v = (if r < length st then st[r := (st ! r)(k \<mapsto> v)] else st)"

text \<open>
  Modelled from the spec: \<open>assign\<close> of ./utils, which is not among the sources. It is
  taken to be Object.assign: the own properties of each source, from left to right, are
  written into the target (a later source overrides an earlier one), the sources are
  left as they are and the target is returned.
\<close>

definition assign :: "store \<Rightarrow> nat \<Rightarrow> nat list \<Rightarrow> store" where
  "assign st target sources =
     (if target < length st
      then st[target := foldl (++) (st ! target) (map (deref st) sources)]
      else st)"

section \<open>Option preparation\<close>

text \<open>
  \<open>defaultOptions\<close> (lines 14 to 57). \<open>ms\<close> is what \<open>isMSBrowser()\<close> of ./utils
  returns in the browser at hand.
\<close>

definition defaultOptions :: "bool \<Rightarrow> obj" where
  "defaultOptions ms = map_of
     [(''charDataLoader'', Opaque ''defaultCharDataLoader''),
      (''onLoadCharDataError'', Null),
      (''onLoadCharDataSuccess'', Null),
      (''showOutline'', Bool True),
      (''showCharacter'', Bool True),
      (''width'', Null),
      (''height'', Null),
      (''padding'', Num 20),
      (''strokeAnimationSpeed'', Num 1),
      (''strokeFadeDuration'', Num 400),
      (''strokeHighlightDuration'', Num 200),
      (''strokeHighlightSpeed'', Num 2),
      (''delayBetweenStrokes'', Num 1000),
      (''delayBetweenLoops'', Num 2000),
      (''strokeColor'', Opaque ''#555''),
      (''radicalColor'', Null),
      (''highlightColor'', Opaque ''#AAF''),
      (''outlineColor'', Opaque ''#DDD''),
      (''drawingColor'', Opaque ''#333''),
      (''showHintAfterMisses'', Num 3),
      (''highlightOnComplete'', Bool True),
      (''drawingFadeDuration'', Num 300),
      (''drawingWidth'', Num 4),
      (''strokeWidth'', Num 2),
      (''outlineWidth'', Num 2),
      (''usePolygonMasks'', Bool ms)]"

text \<open>
  The part of the environment that option preparation reads: the browser test and the
  bounding rectangle of the canvas (\<open>this._canvas.svg.getBoundingClientRect()\<close>).
\<close>

record browser =
  isMSBrowser :: bool
  rect_width :: real
  rect_height :: real

text \<open>
  \<open>_fillWidthAndHeight\<close> (lines 161 to 174): \<open>options\<close> is a reference; the result is
  the reference returned and the store after the call.
\<close>

definition fillWidthAndHeight :: "browser \<Rightarrow> store \<Rightarrow> nat \<Rightarrow> nat \<times> store" where
  "fillWidthAndHeight env st options =
     (let (filledOpts, st1) = new_object st;
          st2 = assign st1 filledOpts [options];
          width = get_prop (deref st2 filledOpts) ''width'';
          height = get_prop (deref st2 filledOpts) ''height''
      in if truthy width \<and> \<not> truthy height then
           (filledOpts, set_prop st2 filledOpts ''height'' width)
         else if truthy height \<and> \<not> truthy width then
           (filledOpts, set_prop st2 filledOpts ''width'' height)
         else if \<not> truthy width \<and> \<not> truthy height then
           (let minDim = Num (min (rect_width env) (rect_height env));
                st3 = set_prop st2 filledOpts ''width'' minDim
            in (filledOpts, set_prop st3 filledOpts ''height'' minDim))
         else (filledOpts, st2))"

text \<open>
  \<open>_assignOptions\<close> (lines 146 to 158). The default options are an object of the
  store, at the reference \<open>defaults\<close>.
\<close>

definition assignOptions :: "browser \<Rightarrow> store \<Rightarrow> nat \<Rightarrow> nat \<Rightarrow> nat \<times> store" where
  "assignOptions env st defaults options =
     (let (mergedOptions, st1) = new_object st;
          st2 = assign st1 mergedOptions [defaults, options];
          st3 = (if truthy (get_prop (deref st2 options) ''strokeAnimationDuration'')
                    \<and> \<not> truthy (get_prop (deref st2 options) ''strokeAnimationSpeed'')
                 then set_prop st2 mergedOptions ''strokeAnimationSpeed''
                        (js_div 500 (get_prop (deref st2 mergedOptions) ''strokeAnimationDuration''))
                 else st2);
          st4 = (if truthy (get_prop (deref st3 options) ''strokeHighlightDuration'')
                    \<and> \<not> truthy (get_prop (deref st3 options) ''strokeHighlightSpeed'')
                 then set_prop st3 mergedOptions ''strokeHighlightSpeed''
                        (js_div 500 (get_prop (deref st3 mergedOptions) ''strokeHighlightDuration''))
                 else st3)
      in fillWidthAndHeight env st4 mergedOptions)"

text \<open>
  The merged options object as it stands when \<open>_assignOptions\<close> hands it to
  \<open>_fillWidthAndHeight\<close> (lines 147 to 155), from the default options \<open>d\<close> and the
  options given \<open>ob\<close>.
\<close>

definition mergedOptions :: "obj \<Rightarrow> obj \<Rightarrow> obj" where
  "mergedOptions d ob =
     (let m = d ++ ob;
          m1 = (if truthy (get_prop ob ''strokeAnimationDuration'')
                   \<and> \<not> truthy (get_prop ob ''strokeAnimationSpeed'')
                then m(''strokeAnimationSpeed'' \<mapsto> js_div 500 (get_prop m ''strokeAnimationDuration''))
                else m)
      in (if truthy (get_prop ob ''strokeHighlightDuration'')
             \<and> \<not> truthy (get_prop ob ''strokeHighlightSpeed'')
          then m1(''strokeHighlightSpeed'' \<mapsto> js_div 500 (get_prop m1 ''strokeHighlightDuration''))
          else m1))"

section \<open>The writer as a state machine\<close>

text \<open>
  The writer is event driven: a call of the host, a pointer event, the settling of a load
  and the callbacks of the animation loop each run to completion, followed by the promise
  callbacks they have made ready. The collaborators of the writer (Quiz, the renderers,
  the loading manager, the positioner) are not among the sources; what the writer asks of
  them is recorded, in order, as a list of calls.
\<close>

datatype pstate = Pending | Fulfilled | Rejected

datatype render_method = Show | Hide | Animate

datatype quiz_method = startUserStroke | continueUserStroke | endUserStroke

datatype js_error = TypeError

datatype returned = ReturnsNull | ReturnsPromise | Throws js_error

text \<open>The function handed to \<open>_animateWithData\<close> by each method of the public API.\<close>

datatype effect =
    CharacterShow
  | CharacterHide
  | CharacterAnimate
  | AnimateForever obj
  | OutlineShow
  | OutlineHide

text \<open>The function handed to \<open>_withData\<close>: the body of \<open>quiz\<close> or a call of \<open>_animate\<close>.\<close>

datatype action = QuizAction obj | AnimateAction effect obj

text \<open>
  The two promise callbacks of \<open>_withData\<close>: \<open>Retry\<close> is the one of line 181 and
  \<open>Guarded\<close> the one of line 188.
\<close>

datatype task = Retry action | Guarded action

datatype loop_stage = AwaitAnimate jsval obj | AwaitTimeout obj

datatype event =
    QuizCancel nat
  | QuizNew nat
  | QuizCall nat quiz_method "(real \<times> real) option"
  | AnimatorCancel
  | AnimatorAnimate nat
  | RendererDestroy nat
  | LoadCharData nat string
  | GenerateCharacter string "string list"
  | NewPositioner
  | NewRenderer nat
  | NewStateManager
  | Mount nat
  | Render nat
  | CharacterRendererCall render_method nat
  | OutlineRendererCall render_method nat
  | Timeout jsval nat
  | PreventDefault

text \<open>
  What the collaborators answer, as a function of the calls made so far:
  whether \<open>loadingFailed\<close> is set when \<open>loadCharData\<close> returns, whether
  \<open>_characterRenderer.animate\<close> returns a promise, and the positioner's conversion of a
  point. \<open>box_left\<close> and \<open>box_top\<close> are the corner of the canvas's bounding rectangle,
  and \<open>quiz_cancel_invalidates\<close> says whether the \<open>cancel\<close> of a Quiz cancels the
  animation in flight.
\<close>

record world =
  load_fails_at_once :: "event list \<Rightarrow> bool"
  animate_gives_promise :: "event list \<Rightarrow> bool"
  quiz_cancel_invalidates :: bool
  convertExternalPoint :: "real \<times> real \<Rightarrow> real \<times> real"
  box_left :: real
  box_top :: real

text \<open>
  The fields of a HanziWriter (\<open>hw_quiz\<close> is \<open>this._quiz\<close>, and so on). A Quiz, a
  renderer, a promise and an animation are known by their number. \<open>loads\<close> holds, for
  each call of \<open>loadCharData\<close>, the character asked for and the state of the promise that
  \<open>setCharacter\<close> made of it; \<open>waiters\<close> are the callbacks of line 188 on promises that
  are pending; \<open>generations\<close> holds the active flag of every Animation the animator has
  made and \<open>lastAnimation\<close> the animator's current one; \<open>loops\<close> holds the callback
  that the loop of a generation is waiting in. \<open>hw_characterRenderer\<close> and
  \<open>hw_outlineRenderer\<close> are \<open>this._characterRenderer\<close> and \<open>this._outlineRenderer\<close>,
  which this file reads and never assigns: they are undefined unless something else has
  put a renderer there.
\<close>

record writer =
  hw_quiz :: "nat option"
  hw_char :: string
  hw_options :: obj
  isLoadingCharData :: bool
  loadingFailed :: bool
  hw_withDataPromise :: nat
  loads :: "(string \<times> pstate) list"
  waiters :: "(nat \<times> action) list"
  microtasks :: "task list"
  hw_hanziWriterRenderer :: "nat option"
  hw_characterRenderer :: "nat option"
  hw_outlineRenderer :: "nat option"
  hw_character :: "(string \<times> string list) option"
  hw_positioner :: "(string \<times> string list) option"
  hw_stateManager :: "(string \<times> string list) option"
  generations :: "bool list"
  lastAnimation :: "nat option"
  loops :: "nat \<Rightarrow> loop_stage option"
  quizzes :: nat
  renderers :: nat
  calls :: "event list"

definition record_call :: "event \<Rightarrow> writer \<Rightarrow> writer" where
  "record_call e s = s\<lparr>calls := calls s @ [e]\<rparr>"

subsection \<open>The animator\<close>

text \<open>
  Modelled from the spec: the Animator of ./Animator, which is not among the sources
  (section 4.2). \<open>animate\<close> runs the effect against a fresh animation generation and
  starting it cancels the previous generation; \<open>cancel\<close> invalidates the current
  generation; an Animation answers \<open>isActive\<close> until it is cancelled.
\<close>

definition isActive :: "writer \<Rightarrow> nat \<Rightarrow> bool" where
  "isActive s animation = (animation < length (generations s) \<and> generations s ! animation)"

definition Animator_cancel :: "writer \<Rightarrow> writer" where
  "Animator_cancel s =
     (case lastAnimation s of
        None \<Rightarrow> s
      | Some g \<Rightarrow> s\<lparr>generations := (generations s)[g := False]\<rparr>)"

definition new_generation :: "writer \<Rightarrow> nat \<times> writer" where
  "new_generation s =
     (let s1 = Animator_cancel s; g = length (generations s1)
      in (g, s1\<lparr>generations := generations s1 @ [True], lastAnimation := Some g\<rparr>))"

subsection \<open>The animation loop\<close>

text \<open>
  \<open>animateForever\<close> of \<open>loopCharacterAnimation\<close> (lines 82 to 91). It returns null or
  a promise, or throws when \<open>this._characterRenderer\<close> is undefined (line 86); when it
  returns a promise, the loop of this generation waits for \<open>animatePromise\<close>, with the
  callback of line 89.
\<close>

definition animateForever :: "world \<Rightarrow> obj \<Rightarrow> nat \<Rightarrow> writer \<Rightarrow> returned \<times> writer" where
  "animateForever w options animation s =
     (if \<not> isActive s animation then (ReturnsNull, s)
      else
        let cascadedOpts = hw_options s ++ options;
            delayBetweenLoops = get_prop cascadedOpts ''delayBetweenLoops''
        in case hw_characterRenderer s of
             None \<Rightarrow> (Throws TypeError, s)
           | Some r \<Rightarrow>
               (let promised = animate_gives_promise w (calls s);
                    s1 = record_call (CharacterRendererCall Animate animation) s
                in if \<not> promised then (ReturnsNull, s1)
                   else (ReturnsPromise,
                         s1\<lparr>loops := (loops s1)
                              (animation \<mapsto> AwaitAnimate delayBetweenLoops options)\<rparr>)))"

text \<open>The callback of line 89, run when \<open>animatePromise\<close> is fulfilled.\<close>

definition animateForever_then_timeout :: "nat \<Rightarrow> writer \<Rightarrow> writer" where
  "animateForever_then_timeout animation s =
     (case loops s animation of
        Some (AwaitAnimate delayBetweenLoops options) \<Rightarrow>
          (record_call (Timeout delayBetweenLoops animation) s)
            \<lparr>loops := (loops s)(animation \<mapsto> AwaitTimeout options)\<rparr>
      | _ \<Rightarrow> s)"

text \<open>The callback of line 90, run when the timeout has elapsed.\<close>

definition animateForever_then_again :: "world \<Rightarrow> nat \<Rightarrow> writer \<Rightarrow> writer" where
  "animateForever_then_again w animation s =
     (case loops s animation of
        Some (AwaitTimeout options) \<Rightarrow>
          snd (animateForever w options animation (s\<lparr>loops := (loops s)(animation := None)\<rparr>))
      | _ \<Rightarrow> s)"

text \<open>
  A call of a method of \<open>this._characterRenderer\<close> or \<open>this._outlineRenderer\<close>: it
  throws when the field is undefined, and is recorded otherwise.
\<close>

definition renderer_call :: "nat option \<Rightarrow> event \<Rightarrow> writer \<Rightarrow> writer \<times> js_error option" where
  "renderer_call renderer e s =
     (case renderer of
        None \<Rightarrow> (s, Some TypeError)
      | Some r \<Rightarrow> (record_call e s, None))"

text \<open>
  Running the function handed to \<open>_animateWithData\<close> on an animation (lines 72, 75, 79,
  82 to 91, 98 and 101): the state it leaves and the error it throws, if any.
\<close>

fun run_effect :: "world \<Rightarrow> effect \<Rightarrow> nat \<Rightarrow> writer \<Rightarrow> writer \<times> js_error option" where
  "run_effect w CharacterShow animation s =
     renderer_call (hw_characterRenderer s) (CharacterRendererCall Show animation) s"
| "run_effect w CharacterHide animation s =
     renderer_call (hw_characterRenderer s) (CharacterRendererCall Hide animation) s"
| "run_effect w CharacterAnimate animation s =
     renderer_call (hw_characterRenderer s) (CharacterRendererCall Animate animation) s"
| "run_effect w (AnimateForever options) animation s =
     (case animateForever w options animation s of
        (Throws e, s1) \<Rightarrow> (s1, Some e)
      | (r, s1) \<Rightarrow> (s1, None))"
| "run_effect w OutlineShow animation s =
     renderer_call (hw_outlineRenderer s) (OutlineRendererCall Show animation) s"
| "run_effect w OutlineHide animation s =
     renderer_call (hw_outlineRenderer s) (OutlineRendererCall Hide animation) s"

text \<open>
  \<open>_animate\<close> (lines 239 to 241): \<open>this._animator.animate(func, options)\<close>. When the
  function throws, the generation has been made and the writer is left as the function
  left it.
\<close>

definition animate :: "world \<Rightarrow> effect \<Rightarrow> obj \<Rightarrow> writer \<Rightarrow> writer" where
  "animate w func options s =
     (let (animation, s1) = new_generation s
      in fst (run_effect w func animation (record_call (AnimatorAnimate animation) s1)))"

subsection \<open>The quiz\<close>

text \<open>
  Modelled from the spec: \<open>cancel\<close> of the Quiz of ./Quiz, which is not among the
  sources. By section 4.3 it invalidates the current generation of the animator that the
  quiz was given; whether it does is left to the world, so that what follows holds either
  way.
\<close>

definition Quiz_cancel :: "world \<Rightarrow> nat \<Rightarrow> writer \<Rightarrow> writer" where
  "Quiz_cancel w q s =
     (let s1 = record_call (QuizCancel q) s
      in if quiz_cancel_invalidates w then Animator_cancel s1 else s1)"

text \<open>
  Modelled from the spec: a success, hint or completion animation of the Quiz
  (section 4.3), which runs on the animator that the quiz was given.
\<close>

definition Quiz_animates :: "writer \<Rightarrow> writer" where
  "Quiz_animates s = (if hw_quiz s = None then s else snd (new_generation s))"

text \<open>\<open>cancelQuiz\<close> (lines 119 to 122).\<close>

definition cancelQuiz :: "world \<Rightarrow> writer \<Rightarrow> writer" where
  "cancelQuiz w s =
     (let s1 = (case hw_quiz s of Some q \<Rightarrow> Quiz_cancel w q s | None \<Rightarrow> s)
      in s1\<lparr>hw_quiz := None\<rparr>)"

subsection \<open>Loading a character\<close>

text \<open>
  Modelled from the spec: \<open>loadCharData\<close> of the LoadingManager of ./LoadingManager,
  which is not among the sources. It starts a load and returns a promise for it; the
  value of \<open>loadingFailed\<close> that it leaves, and later the settling of the promise, are
  the environment's.
\<close>

definition loadCharData :: "world \<Rightarrow> string \<Rightarrow> writer \<Rightarrow> nat \<times> writer" where
  "loadCharData w c s =
     (let p = length (loads s);
          s1 = record_call (LoadCharData p c) s
      in (p, s1\<lparr>loads := loads s @ [(c, Pending)],
                  loadingFailed := load_fails_at_once w (calls s)\<rparr>))"

text \<open>\<open>setCharacter\<close> (lines 124 to 142), up to the return of the promise.\<close>

definition setCharacter :: "world \<Rightarrow> string \<Rightarrow> writer \<Rightarrow> writer" where
  "setCharacter w c s =
     (let s1 = cancelQuiz w s;
          s2 = s1\<lparr>hw_char := c\<rparr>;
          s3 = Animator_cancel (record_call AnimatorCancel s2);
          s4 = (case hw_hanziWriterRenderer s3 of
                  Some r \<Rightarrow> record_call (RendererDestroy r) s3
                | None \<Rightarrow> s3);
          s5 = s4\<lparr>hw_hanziWriterRenderer := None\<rparr>;
          (p, s6) = loadCharData w c s5
      in s6\<lparr>hw_withDataPromise := p\<rparr>)"

text \<open>The callback of lines 130 to 140, run when the load of \<open>c\<close> is fulfilled.\<close>

definition setCharacter_then :: "string \<Rightarrow> string list \<Rightarrow> writer \<Rightarrow> writer" where
  "setCharacter_then c pathStrings s =
     (if loadingFailed s then s
      else
        let s1 = (record_call (GenerateCharacter c pathStrings) s)
                   \<lparr>hw_character := Some (c, pathStrings)\<rparr>;
            s2 = (record_call NewPositioner s1)\<lparr>hw_positioner := hw_character s1\<rparr>;
            r = renderers s2;
            s3 = (record_call (NewRenderer r) s2)
                   \<lparr>hw_hanziWriterRenderer := Some r, renderers := Suc r\<rparr>;
            s4 = (record_call NewStateManager s3)\<lparr>hw_stateManager := hw_character s3\<rparr>
        in record_call (Render r) (record_call (Mount r) s4))"

subsection \<open>Waiting for the data\<close>

definition promise_state :: "writer \<Rightarrow> nat \<Rightarrow> pstate" where
  "promise_state s p = (if p < length (loads s) then snd (loads s ! p) else Pending)"

text \<open>
  Lines 188 to 192: \<open>this._withDataPromise.then(...)\<close>. The callback waits while the
  promise is pending, is made ready at once when the promise is already fulfilled, and is
  never run when the promise is rejected.
\<close>

definition withDataPromise_then :: "action \<Rightarrow> writer \<Rightarrow> writer" where
  "withDataPromise_then func s =
     (let p = hw_withDataPromise s
      in case promise_state s p of
           Pending \<Rightarrow> s\<lparr>waiters := waiters s @ [(p, func)]\<rparr>
         | Fulfilled \<Rightarrow> s\<lparr>microtasks := microtasks s @ [Guarded func]\<rparr>
         | Rejected \<Rightarrow> s)"

text \<open>\<open>_withData\<close> (lines 176 to 193).\<close>

definition withData :: "world \<Rightarrow> action \<Rightarrow> writer \<Rightarrow> writer" where
  "withData w func s =
     (if loadingFailed s then
        (let s1 = setCharacter w (hw_char s) s
         in s1\<lparr>microtasks := microtasks s1 @ [Retry func]\<rparr>)
      else withDataPromise_then func s)"

text \<open>Running the function handed to \<open>_withData\<close>: lines 106 to 115, or line 244.\<close>

fun run_action :: "world \<Rightarrow> action \<Rightarrow> writer \<Rightarrow> writer" where
  "run_action w (QuizAction quizOptions) s =
     (let s1 = cancelQuiz w s; q = quizzes s1
      in (record_call (QuizNew q) s1)\<lparr>hw_quiz := Some q, quizzes := Suc q\<rparr>)"
| "run_action w (AnimateAction func options) s = animate w func options s"

text \<open>The two callbacks of \<open>_withData\<close> (lines 181 to 186 and lines 188 to 192).\<close>

fun run_task :: "world \<Rightarrow> task \<Rightarrow> writer \<Rightarrow> writer" where
  "run_task w (Retry func) s = (if \<not> loadingFailed s then withData w func s else s)"
| "run_task w (Guarded func) s = (if \<not> loadingFailed s then run_action w func s else s)"

text \<open>The promise callbacks that are ready run, first come first served, until none is left.\<close>

function drain :: "world \<Rightarrow> writer \<Rightarrow> writer" where
  "drain w s =
     (case microtasks s of
        [] \<Rightarrow> s
      | t # ts \<Rightarrow> drain w (run_task w t (s\<lparr>microtasks := ts\<rparr>)))"
  by pat_completeness auto

subsection \<open>The public API\<close>

definition animateWithData :: "world \<Rightarrow> effect \<Rightarrow> obj \<Rightarrow> writer \<Rightarrow> writer" where
  "animateWithData w func options s = withData w (AnimateAction func options) s"

definition showCharacter :: "world \<Rightarrow> obj \<Rightarrow> writer \<Rightarrow> writer" where
  "showCharacter w options s = animateWithData w CharacterShow options s"

definition hideCharacter :: "world \<Rightarrow> obj \<Rightarrow> writer \<Rightarrow> writer" where
  "hideCharacter w options s = animateWithData w CharacterHide options s"

definition animateCharacter :: "world \<Rightarrow> obj \<Rightarrow> writer \<Rightarrow> writer" where
  "animateCharacter w options s = animateWithData w CharacterAnimate options (cancelQuiz w s)"

definition loopCharacterAnimation :: "world \<Rightarrow> obj \<Rightarrow> writer \<Rightarrow> writer" where
  "loopCharacterAnimation w options s =
     animateWithData w (AnimateForever options) options (cancelQuiz w s)"

definition showOutline :: "world \<Rightarrow> obj \<Rightarrow> writer \<Rightarrow> writer" where
  "showOutline w options s = animateWithData w OutlineShow options s"

definition hideOutline :: "world \<Rightarrow> obj \<Rightarrow> writer \<Rightarrow> writer" where
  "hideOutline w options s = animateWithData w OutlineHide options s"

definition quiz :: "world \<Rightarrow> obj \<Rightarrow> writer \<Rightarrow> writer" where
  "quiz w quizOptions s = withData w (QuizAction quizOptions) s"

subsection \<open>Pointer input\<close>

text \<open>\<open>_forwardToQuiz\<close> (lines 222 to 225).\<close>

definition forwardToQuiz :: "quiz_method \<Rightarrow> (real \<times> real) option \<Rightarrow> writer \<Rightarrow> writer" where
  "forwardToQuiz method args s =
     (case hw_quiz s of
        None \<Rightarrow> s
      | Some q \<Rightarrow> record_call (QuizCall q method args) s)"

text \<open>
  \<open>_getMousePoint\<close> and \<open>_getTouchPoint\<close> (lines 227 to 237). Reading
  \<open>convertExternalPoint\<close> of a positioner that was never made, or \<open>clientX\<close> of a touch
  that is not there, throws.
\<close>

definition getMousePoint :: "world \<Rightarrow> writer \<Rightarrow> real \<times> real \<Rightarrow> js_error + real \<times> real" where
  "getMousePoint w s evt =
     (case hw_positioner s of
        None \<Rightarrow> Inl TypeError
      | Some _ \<Rightarrow> Inr (convertExternalPoint w (fst evt - box_left w, snd evt - box_top w)))"

definition getTouchPoint :: "world \<Rightarrow> writer \<Rightarrow> (real \<times> real) list \<Rightarrow> js_error + real \<times> real" where
  "getTouchPoint w s touches =
     (case touches of
        [] \<Rightarrow> Inl TypeError
      | t # _ \<Rightarrow>
          (case hw_positioner s of
             None \<Rightarrow> Inl TypeError
           | Some _ \<Rightarrow> Inr (convertExternalPoint w (fst t - box_left w, snd t - box_top w))))"

text \<open>
  The four listeners on the canvas (lines 196 to 215), which differ in the method they
  forward and in how they read the point, and the two on the document (lines 218 and
  219). A listener returns the state it leaves and the error it throws, if any.
\<close>

definition canvas_listener ::
  "quiz_method \<Rightarrow> (js_error + real \<times> real) \<Rightarrow> writer \<Rightarrow> writer \<times> js_error option" where
  "canvas_listener method point s =
     (if isLoadingCharData s \<or> hw_quiz s = None then (s, None)
      else
        let s1 = record_call PreventDefault s
        in case point of
             Inl e \<Rightarrow> (s1, Some e)
           | Inr pt \<Rightarrow> (forwardToQuiz method (Some pt) s1, None))"

definition on_mousedown :: "world \<Rightarrow> real \<times> real \<Rightarrow> writer \<Rightarrow> writer \<times> js_error option" where
  "on_mousedown w evt s = canvas_listener startUserStroke (getMousePoint w s evt) s"

definition on_touchstart :: "world \<Rightarrow> (real \<times> real) list \<Rightarrow> writer \<Rightarrow> writer \<times> js_error option" where
  "on_touchstart w touches s = canvas_listener startUserStroke (getTouchPoint w s touches) s"

definition on_mousemove :: "world \<Rightarrow> real \<times> real \<Rightarrow> writer \<Rightarrow> writer \<times> js_error option" where
  "on_mousemove w evt s = canvas_listener continueUserStroke (getMousePoint w s evt) s"

definition on_touchmove :: "world \<Rightarrow> (real \<times> real) list \<Rightarrow> writer \<Rightarrow> writer \<times> js_error option" where
  "on_touchmove w touches s = canvas_listener continueUserStroke (getTouchPoint w s touches) s"

definition on_mouseup :: "writer \<Rightarrow> writer \<times> js_error option" where
  "on_mouseup s = (forwardToQuiz endUserStroke None s, None)"

definition on_touchend :: "writer \<Rightarrow> writer \<times> js_error option" where
  "on_touchend s = (forwardToQuiz endUserStroke None s, None)"

subsection \<open>Runs\<close>

text \<open>
  The settling of the load behind promise \<open>p\<close>. The loading manager leaves
  \<open>loadingFailed\<close> at \<open>failed\<close>; with \<open>Some pathStrings\<close> the promise of the load is
  fulfilled, so the callback of \<open>setCharacter\<close> runs and then the callbacks waiting on
  \<open>_withDataPromise\<close> are ready; with \<open>None\<close> it is rejected and they are never run.
\<close>

definition load_settles :: "nat \<Rightarrow> string list option \<Rightarrow> bool \<Rightarrow> writer \<Rightarrow> writer" where
  "load_settles p outcome failed s =
     (if p < length (loads s) \<and> snd (loads s ! p) = Pending then
        (let c = fst (loads s ! p);
             s1 = s\<lparr>loadingFailed := failed\<rparr>;
             ready = map (\<lambda>x. Guarded (snd x)) (filter (\<lambda>x. fst x = p) (waiters s1));
             others = filter (\<lambda>x. fst x \<noteq> p) (waiters s1)
         in case outcome of
              None \<Rightarrow> s1\<lparr>loads := (loads s1)[p := (c, Rejected)], waiters := others\<rparr>
            | Some pathStrings \<Rightarrow>
                (let s2 = setCharacter_then c pathStrings s1
                 in s2\<lparr>loads := (loads s2)[p := (c, Fulfilled)],
                        waiters := others,
                        microtasks := microtasks s2 @ ready\<rparr>))
      else s)"

datatype call =
    ShowCharacter obj
  | HideCharacter obj
  | AnimateCharacter obj
  | LoopCharacterAnimation obj
  | ShowOutline obj
  | HideOutline obj
  | Quiz obj
  | CancelQuiz
  | SetCharacter string

datatype pointer =
    MouseDown "real \<times> real"
  | TouchStart "(real \<times> real) list"
  | MouseMove "real \<times> real"
  | TouchMove "(real \<times> real) list"
  | MouseUp
  | TouchEnd

datatype input =
    Call call
  | Pointer pointer
  | LoadSettles nat "string list option" bool
  | AnimatePromiseFulfilled nat
  | TimeoutElapsed nat
  | QuizAnimation

fun do_call :: "world \<Rightarrow> call \<Rightarrow> writer \<Rightarrow> writer" where
  "do_call w (ShowCharacter options) s = showCharacter w options s"
| "do_call w (HideCharacter options) s = hideCharacter w options s"
| "do_call w (AnimateCharacter options) s = animateCharacter w options s"
| "do_call w (LoopCharacterAnimation options) s = loopCharacterAnimation w options s"
| "do_call w (ShowOutline options) s = showOutline w options s"
| "do_call w (HideOutline options) s = hideOutline w options s"
| "do_call w (Quiz quizOptions) s = quiz w quizOptions s"
| "do_call w CancelQuiz s = cancelQuiz w s"
| "do_call w (SetCharacter c) s = setCharacter w c s"

fun do_pointer :: "world \<Rightarrow> pointer \<Rightarrow> writer \<Rightarrow> writer \<times> js_error option" where
  "do_pointer w (MouseDown evt) s = on_mousedown w evt s"
| "do_pointer w (TouchStart touches) s = on_touchstart w touches s"
| "do_pointer w (MouseMove evt) s = on_mousemove w evt s"
| "do_pointer w (TouchMove touches) s = on_touchmove w touches s"
| "do_pointer w MouseUp s = on_mouseup s"
| "do_pointer w TouchEnd s = on_touchend s"

fun handle :: "world \<Rightarrow> input \<Rightarrow> writer \<Rightarrow> writer" where
  "handle w (Call c) s = do_call w c s"
| "handle w (Pointer e) s = fst (do_pointer w e s)"
| "handle w (LoadSettles p outcome failed) s = load_settles p outcome failed s"
| "handle w (AnimatePromiseFulfilled g) s = animateForever_then_timeout g s"
| "handle w (TimeoutElapsed g) s = animateForever_then_again w g s"
| "handle w QuizAnimation s = Quiz_animates s"

definition step :: "world \<Rightarrow> input \<Rightarrow> writer \<Rightarrow> writer" where
  "step w i s = drain w (handle w i s)"

fun run :: "world \<Rightarrow> input list \<Rightarrow> writer \<Rightarrow> writer" where
  "run w [] s = s"
| "run w (i # is) s = run w is (step w i s)"

text \<open>
  The constructor (lines 59 to 67). Before it runs no field is set; the options are
  prepared in the store and read from there.
\<close>

definition blank :: writer where
  "blank =
     \<lparr>hw_quiz = None, hw_char = [], hw_options = Map.empty, isLoadingCharData = False,
      loadingFailed = False, hw_withDataPromise = 0, loads = [], waiters = [],
      microtasks = [], hw_hanziWriterRenderer = None, hw_characterRenderer = None,
      hw_outlineRenderer = None, hw_character = None,
      hw_positioner = None, hw_stateManager = None, generations = [],
      lastAnimation = None, loops = Map.empty, quizzes = 0, renderers = 0, calls = []\<rparr>"

definition HanziWriter :: "world \<Rightarrow> browser \<Rightarrow> store \<Rightarrow> nat \<Rightarrow> nat \<Rightarrow> string \<Rightarrow> writer" where
  "HanziWriter w env st defaults options character =
     (let (r, st1) = assignOptions env st defaults options;
          s0 = blank\<lparr>hw_options := deref st1 r\<rparr>;
          s1 = setCharacter w character s0
      in drain w (s1\<lparr>hw_quiz := None\<rparr>))"

section \<open>Notions used to state the properties\<close>

text \<open>
  The quizzes that are live after a list of calls: a quiz is live from its construction to
  its cancellation.
\<close>

fun quiz_update :: "nat list \<Rightarrow> event \<Rightarrow> nat list" where
  "quiz_update live (QuizNew q) = live @ [q]"
| "quiz_update live (QuizCancel q) = filter (\<lambda>x. x \<noteq> q) live"
| "quiz_update live _ = live"

definition live_quizzes :: "event list \<Rightarrow> nat list" where
  "live_quizzes es = foldl quiz_update [] es"

definition quiz_ok :: "writer \<Rightarrow> bool" where
  "quiz_ok s = (live_quizzes (calls s) = (case hw_quiz s of None \<Rightarrow> [] | Some q \<Rightarrow> [q]))"

text \<open>
  The generations that answer \<open>isActive\<close>, and the states in which only the animator's
  current animation can be one of them. A generation is stale once it has been made and
  cancelled.
\<close>

definition active_generations :: "writer \<Rightarrow> nat list" where
  "active_generations s = filter (\<lambda>g. generations s ! g) [0..<length (generations s)]"

definition one_active :: "writer \<Rightarrow> bool" where
  "one_active s = (\<forall>g \<in> set (active_generations s). lastAnimation s = Some g)"

definition stale :: "writer \<Rightarrow> nat \<Rightarrow> bool" where
  "stale s g = (g < length (generations s) \<and> \<not> generations s ! g)"

text \<open>
  The calls that belong to the animation \<open>g\<close>: \<open>visual\<close> are the calls on a renderer,
  \<open>scheduled\<close> are those and the timeouts of its loop.
\<close>

fun visual :: "nat \<Rightarrow> event \<Rightarrow> bool" where
  "visual g (CharacterRendererCall m h) = (h = g)"
| "visual g (OutlineRendererCall m h) = (h = g)"
| "visual g _ = False"

fun scheduled :: "nat \<Rightarrow> event \<Rightarrow> bool" where
  "scheduled g (CharacterRendererCall m h) = (h = g)"
| "scheduled g (OutlineRendererCall m h) = (h = g)"
| "scheduled g (Timeout d h) = (h = g)"
| "scheduled g _ = False"

definition dropped :: "nat \<Rightarrow> event list \<Rightarrow> writer \<Rightarrow> bool" where
  "dropped g vs s = (stale s g \<and> filter (visual g) (calls s) = vs)"

text \<open>
  The delay that the loop of generation \<open>g\<close> has still to set: it is waiting for the
  promise of the renderer's \<open>animate\<close>, and the callback of line 89 sets the timeout when
  that promise is fulfilled. A loop has ended when its generation has been made and no
  callback of it is waiting; the loop of a stale generation is winding down: what has
  been scheduled for it, together with the delay it has still to set, stays the same.
\<close>

definition pending_delay :: "writer \<Rightarrow> nat \<Rightarrow> event list" where
  "pending_delay s g =
     (case loops s g of
        Some (AwaitAnimate d opts) \<Rightarrow> [Timeout d g]
      | _ \<Rightarrow> [])"

definition ended :: "nat \<Rightarrow> event list \<Rightarrow> writer \<Rightarrow> bool" where
  "ended g es s =
     (g < length (generations s) \<and> loops s g = None \<and> filter (scheduled g) (calls s) = es)"

definition winding_down :: "nat \<Rightarrow> event list \<Rightarrow> event list \<Rightarrow> writer \<Rightarrow> bool" where
  "winding_down g es p s =
     (stale s g \<and> filter (scheduled g) (calls s) @ pending_delay s g = es
      \<and> (pending_delay s g = [] \<or> pending_delay s g = p))"

text \<open>
  The calls by which the function handed to \<open>_withData\<close> shows that it has run, the
  calls that touch a quiz, and the function that each method of the API hands to
  \<open>_withData\<close>.
\<close>

fun started :: "event \<Rightarrow> bool" where
  "started (QuizNew q) = True"
| "started (AnimatorAnimate g) = True"
| "started _ = False"

fun quiz_event :: "event \<Rightarrow> bool" where
  "quiz_event (QuizCancel q) = True"
| "quiz_event (QuizNew q) = True"
| "quiz_event (QuizCall q m a) = True"
| "quiz_event _ = False"

fun action_of :: "call \<Rightarrow> action option" where
  "action_of (ShowCharacter options) = Some (AnimateAction CharacterShow options)"
| "action_of (HideCharacter options) = Some (AnimateAction CharacterHide options)"
| "action_of (AnimateCharacter options) = Some (AnimateAction CharacterAnimate options)"
| "action_of (LoopCharacterAnimation options) = Some (AnimateAction (AnimateForever options) options)"
| "action_of (ShowOutline options) = Some (AnimateAction OutlineShow options)"
| "action_of (HideOutline options) = Some (AnimateAction OutlineHide options)"
| "action_of (Quiz quizOptions) = Some (QuizAction quizOptions)"
| "action_of CancelQuiz = None"
| "action_of (SetCharacter c) = None"




text \<open>
  Shorthands for what the functions of the writer do to a state: the generations after
  the animator's \<open>cancel\<close>, the calls of \<open>cancelQuiz\<close>, of the destruction of the
  renderer, of an effect (made when its renderer is there and, for the loop, the
  generation is active) and of a pointer listener, and the loops after an effect.
\<close>

definition cancelled :: "nat option \<Rightarrow> bool list \<Rightarrow> bool list" where
  "cancelled l gens = (case l of None \<Rightarrow> gens | Some g \<Rightarrow> gens[g := False])"

definition cancel_call :: "nat option \<Rightarrow> event list" where
  "cancel_call q = (case q of None \<Rightarrow> [] | Some n \<Rightarrow> [QuizCancel n])"

definition destroy_call :: "nat option \<Rightarrow> event list" where
  "destroy_call r = (case r of None \<Rightarrow> [] | Some n \<Rightarrow> [RendererDestroy n])"

fun effect_call :: "effect \<Rightarrow> nat \<Rightarrow> event" where
  "effect_call CharacterShow g = CharacterRendererCall Show g"
| "effect_call CharacterHide g = CharacterRendererCall Hide g"
| "effect_call CharacterAnimate g = CharacterRendererCall Animate g"
| "effect_call (AnimateForever opts) g = CharacterRendererCall Animate g"
| "effect_call OutlineShow g = OutlineRendererCall Show g"
| "effect_call OutlineHide g = OutlineRendererCall Hide g"

definition effect_calls :: "effect \<Rightarrow> bool \<Rightarrow> nat \<Rightarrow> event list" where
  "effect_calls f a g = (if a then [effect_call f g] else [])"

fun effect_made :: "effect \<Rightarrow> nat \<Rightarrow> writer \<Rightarrow> bool" where
  "effect_made (AnimateForever opts) g s = (isActive s g \<and> hw_characterRenderer s \<noteq> None)"
| "effect_made OutlineShow g s = (hw_outlineRenderer s \<noteq> None)"
| "effect_made OutlineHide g s = (hw_outlineRenderer s \<noteq> None)"
| "effect_made f g s = (hw_characterRenderer s \<noteq> None)"

fun effect_loops :: "world \<Rightarrow> effect \<Rightarrow> nat \<Rightarrow> writer \<Rightarrow> nat \<Rightarrow> loop_stage option" where
  "effect_loops w (AnimateForever opts) g s =
     (if isActive s g \<and> hw_characterRenderer s \<noteq> None \<and> animate_gives_promise w (calls s)
      then (loops s)(g \<mapsto> AwaitAnimate (get_prop (hw_options s ++ opts) ''delayBetweenLoops'') opts)
      else loops s)"
| "effect_loops w f g s = loops s"

definition pointer_calls :: "event list \<Rightarrow> bool" where
  "pointer_calls es = (\<forall>x \<in> set es. x = PreventDefault \<or> (\<exists>q m a. x = QuizCall q m a))"

text \<open>The measure under which the ready callbacks run out: a retry makes at most one guarded callback ready.\<close>

fun task_weight :: "task \<Rightarrow> nat" where
  "task_weight (Retry a) = 2"
| "task_weight (Guarded a) = 1"

text \<open>
  States and runs used as examples: a world in which no load fails at once and the
  renderer always gives a promise, one in which it never gives one, and writers for the
  character x in which the data are still loading, are loaded, have failed to load, and
  in which a quiz or a loop has been started. This file never assigns
  \<open>this._characterRenderer\<close> and \<open>this._outlineRenderer\<close>, so the writer that the
  constructor makes has neither, and a loop started on it throws (\<open>bare_loop\<close>); the
  loaded writer of the examples is one on which a character renderer and an outline
  renderer have been put, as lines 72 to 101 expect. The loop of the examples is cut
  short when a new character is set during its first animation, cancelled when that
  happens during the delay, and ended after the timeout of a cancelled loop.
\<close>

definition quiet_world :: world where
  "quiet_world = \<lparr>load_fails_at_once = (\<lambda>es. False), animate_gives_promise = (\<lambda>es. True),
     quiz_cancel_invalidates = False, convertExternalPoint = (\<lambda>p. p),
     box_left = 0, box_top = 0\<rparr>"


definition plain_browser :: browser where
  "plain_browser = \<lparr>isMSBrowser = False, rect_width = 300, rect_height = 200\<rparr>"

definition first_writer :: writer where
  "first_writer = HanziWriter quiet_world plain_browser [defaultOptions False, Map.empty] 0 1 ''x''"

definition loaded_writer :: writer where
  "loaded_writer =
     (run quiet_world [LoadSettles 0 (Some []) False] first_writer)
       \<lparr>hw_characterRenderer := Some 0, hw_outlineRenderer := Some 1\<rparr>"

definition quiz_writer :: writer where
  "quiz_writer = run quiet_world [Call (ShowCharacter Map.empty), Call (Quiz Map.empty)] loaded_writer"

definition looping_writer :: writer where
  "looping_writer = run quiet_world [Call (LoopCharacterAnimation Map.empty)] loaded_writer"

definition failed_writer :: writer where
  "failed_writer = run quiet_world [LoadSettles 0 (Some []) True] first_writer"







section \<open>Option preparation: properties\<close>

lemma deref_new [simp]: "deref (st @ [ob]) (length st) = ob"
  by (simp add: deref_def)

lemma fill_ref: "fst (fillWidthAndHeight env st options) = length st"
  by (simp add: fillWidthAndHeight_def new_object_def Let_def)

lemma fill_length: "length (snd (fillWidthAndHeight env st options)) = Suc (length st)"
  by (simp add: fillWidthAndHeight_def new_object_def assign_def set_prop_def Let_def)

lemma fill_frame: "a < length st \<Longrightarrow> snd (fillWidthAndHeight env st options) ! a = st ! a"
  by (simp add: fillWidthAndHeight_def new_object_def assign_def set_prop_def Let_def nth_append)

lemma fill_copy: "options < length st \<Longrightarrow>
  deref (assign (st @ [Map.empty]) (length st) [options]) (length st) = st ! options"
  by (simp add: assign_def deref_def nth_append)

lemma assign_two: "defaults < length st \<Longrightarrow> options < length st \<Longrightarrow>
  assign (st @ [Map.empty]) (length st) [defaults, options]
    = st @ [(st ! defaults) ++ (st ! options)]"
  by (simp add: assign_def deref_def nth_append)

lemma set_prop_last: "set_prop (st @ [ob]) (length st) k v = st @ [ob(k \<mapsto> v)]"
  by (simp add: set_prop_def)

lemma deref_old: "r < length st \<Longrightarrow> deref (st @ [ob]) r = st ! r"
  by (simp add: deref_def nth_append)

lemma fill_result:
  "k \<noteq> ''width'' \<Longrightarrow> k \<noteq> ''height'' \<Longrightarrow>
   deref (snd (fillWidthAndHeight env (st @ [ob]) (length st))) (Suc (length st)) k = ob k"
  apply (simp add: fillWidthAndHeight_def new_object_def Let_def)
  apply (simp add: set_prop_def deref_def assign_def nth_append)
  done

lemma assignOptions_merged:
  assumes "defaults < length st" "options < length st"
  shows "assignOptions env st defaults options =
    fillWidthAndHeight env (st @ [mergedOptions (st ! defaults) (st ! options)]) (length st)"
  using assms
  by (simp add: assignOptions_def new_object_def Let_def assign_two set_prop_last deref_old deref_new
      mergedOptions_def)

lemma assignOptions_ref:
  assumes "defaults < length st" "options < length st"
  shows "fst (assignOptions env st defaults options) = Suc (length st)"
  by (simp add: assignOptions_merged [OF assms] fill_ref)

lemma assignOptions_frame:
  assumes "defaults < length st" "options < length st" "a < length st"
  shows "snd (assignOptions env st defaults options) ! a = st ! a"
  using assms(3) by (simp add: assignOptions_merged [OF assms(1,2)] fill_frame nth_append)

lemma assignOptions_effective:
  assumes "defaults < length st" "options < length st" "k \<noteq> ''width''" "k \<noteq> ''height''"
  shows "get_prop (deref (snd (assignOptions env st defaults options)) (Suc (length st))) k =
         get_prop (mergedOptions (st ! defaults) (st ! options)) k"
  using assms(3,4) by (simp add: assignOptions_merged [OF assms(1,2)] fill_result get_prop_def)

lemma get_prop_upd: "get_prop (m(k \<mapsto> v)) k' = (if k' = k then v else get_prop m k')"
  by (simp add: get_prop_def)

lemma assignOptions_animation_speed:
  assumes "defaults < length st" "options < length st"
  shows "get_prop (deref (snd (assignOptions env st defaults options)) (Suc (length st))) ''strokeAnimationSpeed'' =
        (if truthy (get_prop (st ! options) ''strokeAnimationDuration'')
            \<and> \<not> truthy (get_prop (st ! options) ''strokeAnimationSpeed'')
         then js_div 500 (get_prop ((st ! defaults) ++ (st ! options)) ''strokeAnimationDuration'')
         else get_prop ((st ! defaults) ++ (st ! options)) ''strokeAnimationSpeed'')"
  by (simp add: assignOptions_effective [OF assms] mergedOptions_def Let_def get_prop_upd)

lemma assignOptions_highlight_speed:
  assumes "defaults < length st" "options < length st"
  shows "get_prop (deref (snd (assignOptions env st defaults options)) (Suc (length st))) ''strokeHighlightSpeed'' =
        (if truthy (get_prop (st ! options) ''strokeHighlightDuration'')
            \<and> \<not> truthy (get_prop (st ! options) ''strokeHighlightSpeed'')
         then js_div 500 (get_prop ((st ! defaults) ++ (st ! options)) ''strokeHighlightDuration'')
         else get_prop ((st ! defaults) ++ (st ! options)) ''strokeHighlightSpeed'')"
  by (simp add: assignOptions_effective [OF assms] mergedOptions_def Let_def get_prop_upd)

lemma get_prop_override: "ob k = Some v \<Longrightarrow> get_prop (d ++ ob) k = v"
  by (simp add: get_prop_def map_add_def)

lemma truthy_present: "truthy (get_prop ob k) \<Longrightarrow> get_prop (d ++ ob) k = get_prop ob k"
  by (auto simp: get_prop_def map_add_def split: option.splits)

subsection \<open>Width and height\<close>

text \<open>
  C8 (as amended). \<open>_fillWidthAndHeight\<close> returns a new object and leaves every object
  of the store, the options given among them, as it was. With "supplied" read as the
  test the code makes (a truthy value: not null, not undefined, not 0): if the width alone
  is supplied the height is set to it; if the height alone is supplied the width is set to
  it; if neither is supplied both are the minimum of the width and height of the canvas's
  bounding rectangle; if both are supplied both are kept; every other option is copied.
\<close>

theorem fillWidthAndHeight_fills:
  assumes "options < length st"
  shows "fst (fillWidthAndHeight env st options) = length st
    \<and> length (snd (fillWidthAndHeight env st options)) = Suc (length st)
    \<and> (\<forall>a < length st. snd (fillWidthAndHeight env st options) ! a = st ! a)
    \<and> (\<forall>k. k \<noteq> ''width'' \<and> k \<noteq> ''height'' \<longrightarrow>
          deref (snd (fillWidthAndHeight env st options)) (length st) k = (st ! options) k)
    \<and> (let w = get_prop (st ! options) ''width''; h = get_prop (st ! options) ''height'';
            filled = deref (snd (fillWidthAndHeight env st options)) (length st)
        in (truthy w \<and> \<not> truthy h \<longrightarrow> get_prop filled ''width'' = w \<and> get_prop filled ''height'' = w)
         \<and> (truthy h \<and> \<not> truthy w \<longrightarrow> get_prop filled ''width'' = h \<and> get_prop filled ''height'' = h)
         \<and> (\<not> truthy w \<and> \<not> truthy h \<longrightarrow>
               get_prop filled ''width'' = Num (min (rect_width env) (rect_height env))
             \<and> get_prop filled ''height'' = Num (min (rect_width env) (rect_height env)))
         \<and> (truthy w \<and> truthy h \<longrightarrow> get_prop filled ''width'' = w \<and> get_prop filled ''height'' = h))"
  using assms
  apply (intro conjI)
      apply (simp add: fill_ref)
     apply (simp add: fill_length)
    apply (simp add: fill_frame)
   apply (simp add: fillWidthAndHeight_def new_object_def Let_def fill_copy)
   apply (simp add: set_prop_def deref_def assign_def nth_append)
  apply (simp add: fillWidthAndHeight_def new_object_def Let_def fill_copy)
  apply (simp add: set_prop_def deref_def assign_def nth_append get_prop_def)
  done

text \<open>
  C8, witness: options with a width of 120 and no height.
\<close>

theorem fillWidthAndHeight_fills_witness:
  "(0::nat) < length [[''width'' \<mapsto> Num 120]]
   \<and> truthy (get_prop ([[''width'' \<mapsto> Num 120]] ! 0) ''width'')
   \<and> \<not> truthy (get_prop ([[''width'' \<mapsto> Num 120]] ! 0) ''height'')
   \<and> fst (fillWidthAndHeight \<lparr>isMSBrowser = False, rect_width = 300, rect_height = 200\<rparr>
        [[''width'' \<mapsto> Num 120]] 0) = 1
   \<and> get_prop (deref (snd (fillWidthAndHeight \<lparr>isMSBrowser = False, rect_width = 300, rect_height = 200\<rparr>
        [[''width'' \<mapsto> Num 120]] 0)) 1) ''height'' = Num 120
   \<and> get_prop (deref (snd (fillWidthAndHeight \<lparr>isMSBrowser = False, rect_width = 300, rect_height = 200\<rparr>
        [[''width'' \<mapsto> Num 120]] 0)) 1) ''width'' = Num 120
   \<and> snd (fillWidthAndHeight \<lparr>isMSBrowser = False, rect_width = 300, rect_height = 200\<rparr>
        [[''width'' \<mapsto> Num 120]] 0) ! 0 = [''width'' \<mapsto> Num 120]"
  using fillWidthAndHeight_fills [of 0 "[[''width'' \<mapsto> Num 120]]"
      "\<lparr>isMSBrowser = False, rect_width = 300, rect_height = 200\<rparr>"]
  by (simp add: get_prop_def Let_def)

text \<open>
  C8, counterexample to the claim as stated: a width of 0 and a height of 100 are both
  supplied, and the width is not kept: it comes back as 100.
\<close>

theorem fillWidthAndHeight_zero_width_counterexample:
  "[[''width'' \<mapsto> Num 0, ''height'' \<mapsto> Num 100]] ! 0 = [''width'' \<mapsto> Num 0, ''height'' \<mapsto> Num 100]
   \<and> get_prop (deref (snd (fillWidthAndHeight \<lparr>isMSBrowser = False, rect_width = 300, rect_height = 200\<rparr>
        [[''width'' \<mapsto> Num 0, ''height'' \<mapsto> Num 100]] 0)) 1) ''width'' = Num 100
   \<and> Num 100 \<noteq> Num 0"
  by (simp add: fillWidthAndHeight_def new_object_def assign_def deref_def set_prop_def get_prop_def Let_def)

subsection \<open>Deprecated durations\<close>

text \<open>
  C9 (as amended). \<open>_assignOptions\<close> returns a new object and leaves the store as it
  was. If \<open>strokeAnimationDuration\<close> is given as a number other than 0 and
  \<open>strokeAnimationSpeed\<close> is absent or falsy, the effective speed is 500 divided by the
  duration, and likewise for \<open>strokeHighlightDuration\<close> and \<open>strokeHighlightSpeed\<close>; a
  speed that is given and truthy (not 0) is the effective speed whatever the duration.
\<close>

theorem assignOptions_speeds:
  assumes "defaults < length st" and "options < length st"
  shows "fst (assignOptions env st defaults options) = Suc (length st)
    \<and> (\<forall>a < length st. snd (assignOptions env st defaults options) ! a = st ! a)
    \<and> (let given = st ! options;
            effective = deref (snd (assignOptions env st defaults options)) (Suc (length st))
        in (\<forall>d. given ''strokeAnimationDuration'' = Some (Num d) \<and> d \<noteq> 0
                 \<and> \<not> truthy (get_prop given ''strokeAnimationSpeed'')
               \<longrightarrow> get_prop effective ''strokeAnimationSpeed'' = Num (500 / d))
         \<and> (\<forall>d. given ''strokeHighlightDuration'' = Some (Num d) \<and> d \<noteq> 0
                 \<and> \<not> truthy (get_prop given ''strokeHighlightSpeed'')
               \<longrightarrow> get_prop effective ''strokeHighlightSpeed'' = Num (500 / d))
         \<and> (truthy (get_prop given ''strokeAnimationSpeed'')
               \<longrightarrow> get_prop effective ''strokeAnimationSpeed'' = get_prop given ''strokeAnimationSpeed'')
         \<and> (truthy (get_prop given ''strokeHighlightSpeed'')
               \<longrightarrow> get_prop effective ''strokeHighlightSpeed'' = get_prop given ''strokeHighlightSpeed''))"
proof -
  have r: "fst (assignOptions env st defaults options) = Suc (length st)"
    using assms by (rule assignOptions_ref)
  have fr: "\<forall>a < length st. snd (assignOptions env st defaults options) ! a = st ! a"
    using assms by (simp add: assignOptions_frame)
  have num: "\<And>k d ob. ob k = Some (Num d) \<Longrightarrow> get_prop ob k = Num d"
    by (simp add: get_prop_def)
  show ?thesis
    unfolding Let_def assignOptions_animation_speed [OF assms] assignOptions_highlight_speed [OF assms]
    apply (intro conjI r fr)
       apply (simp_all add: truthy_present)
     apply (auto simp: num get_prop_override js_div_def)
    done
qed

text \<open>
  C9, witness: a stroke animation duration of 250 and no speed give the speed 2.
\<close>

theorem assignOptions_speeds_witness:
  "(0::nat) < length [defaultOptions False, [''strokeAnimationDuration'' \<mapsto> Num 250]]
   \<and> (1::nat) < length [defaultOptions False, [''strokeAnimationDuration'' \<mapsto> Num 250]]
   \<and> \<not> truthy (get_prop [''strokeAnimationDuration'' \<mapsto> Num 250] ''strokeAnimationSpeed'')
   \<and> get_prop (deref (snd (assignOptions \<lparr>isMSBrowser = False, rect_width = 300, rect_height = 200\<rparr>
        [defaultOptions False, [''strokeAnimationDuration'' \<mapsto> Num 250]] 0 1)) 3) ''strokeAnimationSpeed'' = Num 2"
  using assignOptions_speeds [of 0 "[defaultOptions False, [''strokeAnimationDuration'' \<mapsto> Num 250]]" 1
      "\<lparr>isMSBrowser = False, rect_width = 300, rect_height = 200\<rparr>"]
  by (simp add: get_prop_def Let_def numeral_3_eq_3)

text \<open>
  C9, counterexample to the claim as stated: a speed of 0 given together with a
  duration of 250 does not take precedence: the effective speed is 2.
\<close>

theorem assignOptions_zero_speed_counterexample:
  "get_prop [''strokeAnimationDuration'' \<mapsto> Num 250, ''strokeAnimationSpeed'' \<mapsto> Num 0] ''strokeAnimationSpeed'' = Num 0
   \<and> get_prop (deref (snd (assignOptions \<lparr>isMSBrowser = False, rect_width = 300, rect_height = 200\<rparr>
        [defaultOptions False, [''strokeAnimationDuration'' \<mapsto> Num 250, ''strokeAnimationSpeed'' \<mapsto> Num 0]] 0 1)) 3)
        ''strokeAnimationSpeed'' = Num 2
   \<and> Num 2 \<noteq> Num 0"
  using assignOptions_animation_speed [of 0
      "[defaultOptions False, [''strokeAnimationDuration'' \<mapsto> Num 250, ''strokeAnimationSpeed'' \<mapsto> Num 0]]" 1
      "\<lparr>isMSBrowser = False, rect_width = 300, rect_height = 200\<rparr>"]
  by (simp add: get_prop_def js_div_def numeral_3_eq_3)

section \<open>The ready callbacks run out\<close>

lemma microtasks_record_call [simp]: "microtasks (record_call e s) = microtasks s"
  by (simp add: record_call_def)

lemma microtasks_Animator_cancel [simp]: "microtasks (Animator_cancel s) = microtasks s"
  by (simp add: Animator_cancel_def split: option.splits)

lemma microtasks_new_generation [simp]: "microtasks (snd (new_generation s)) = microtasks s"
  by (simp add: new_generation_def Let_def)

lemma microtasks_animateForever [simp]: "microtasks (snd (animateForever w opts g s)) = microtasks s"
  by (simp add: animateForever_def Let_def split: option.splits)

lemma microtasks_renderer_call [simp]: "microtasks (fst (renderer_call r e s)) = microtasks s"
  by (simp add: renderer_call_def split: option.splits)

lemma microtasks_run_effect [simp]: "microtasks (fst (run_effect w f g s)) = microtasks s"
proof (cases f)
  case (AnimateForever opts)
  have "fst (run_effect w (AnimateForever opts) g s) = snd (animateForever w opts g s)"
    by (simp split: prod.splits returned.splits)
  then show ?thesis using AnimateForever by simp
qed simp_all

lemma microtasks_animate [simp]: "microtasks (animate w f opts s) = microtasks s"
  by (simp add: animate_def split_beta)

lemma microtasks_cancelQuiz [simp]: "microtasks (cancelQuiz w s) = microtasks s"
  by (simp add: cancelQuiz_def Quiz_cancel_def Let_def split: option.splits)

lemma microtasks_run_action [simp]: "microtasks (run_action w a s) = microtasks s"
  by (cases a) (simp_all add: Let_def)

lemma microtasks_setCharacter [simp]: "microtasks (setCharacter w c s) = microtasks s"
  by (simp add: setCharacter_def loadCharData_def Let_def split: option.splits)

lemma run_task_weight:
  "sum_list (map task_weight (microtasks (run_task w t s)))
     < task_weight t + sum_list (map task_weight (microtasks s))"
  by (cases t) (simp_all add: withData_def withDataPromise_then_def Let_def split: pstate.splits)

termination drain
  apply (relation "measure (\<lambda>(w, s). sum_list (map task_weight (microtasks s)))")
   apply simp
  subgoal for w s t ts
    using run_task_weight [of w t "s\<lparr>microtasks := ts\<rparr>"] by simp
  done

declare drain.simps [simp del]

lemma drain_Nil: "microtasks s = [] \<Longrightarrow> drain w s = s"
  by (subst drain.simps) simp

lemma drain_Cons: "microtasks s = t # ts \<Longrightarrow> drain w s = drain w (run_task w t (s\<lparr>microtasks := ts\<rparr>))"
  by (subst drain.simps) simp



section \<open>What each function does to the state\<close>

lemma nth_update_False: "h < length xs \<Longrightarrow> xs[g := False] ! h = (xs ! h \<and> h \<noteq> g)"
  by (cases "g < length xs") (auto simp: nth_list_update)

lemma in_active_generations: "g \<in> set (active_generations s) \<longleftrightarrow> isActive s g"
  by (auto simp: active_generations_def isActive_def)

lemma one_active_iff: "one_active s \<longleftrightarrow> (\<forall>g. isActive s g \<longrightarrow> lastAnimation s = Some g)"
  by (auto simp: one_active_def in_active_generations)

lemma one_active_length: "one_active s \<Longrightarrow> length (active_generations s) \<le> 1"
proof -
  assume a: "one_active s"
  have d: "distinct (active_generations s)" by (simp add: active_generations_def)
  show ?thesis
  proof (cases "lastAnimation s")
    case None
    with a have "set (active_generations s) = {}" by (auto simp: one_active_def)
    then show ?thesis by simp
  next
    case (Some g)
    with a have "set (active_generations s) \<subseteq> {g}" by (auto simp: one_active_def)
    then have "card (set (active_generations s)) \<le> card {g}" by (intro card_mono) simp_all
    with d show ?thesis by (simp add: distinct_card)
  qed
qed

lemma cancelled_twice [simp]: "cancelled l (cancelled l gens) = cancelled l gens"
  by (simp add: cancelled_def split: option.splits)

lemma length_cancelled [simp]: "length (cancelled l gens) = length gens"
  by (simp add: cancelled_def split: option.splits)

lemma nth_cancelled: "h < length gens \<Longrightarrow> cancelled l gens ! h = (gens ! h \<and> l \<noteq> Some h)"
  by (auto simp: cancelled_def nth_update_False split: option.splits)

text \<open>Each function of the writer, written as one update of the state it is given.\<close>

lemma Animator_cancel_alt:
  "Animator_cancel s = s\<lparr>generations := cancelled (lastAnimation s) (generations s)\<rparr>"
  by (simp add: Animator_cancel_def cancelled_def split: option.splits)

lemma new_generation_alt:
  "new_generation s =
     (length (generations s),
      s\<lparr>generations := cancelled (lastAnimation s) (generations s) @ [True],
        lastAnimation := Some (length (generations s))\<rparr>)"
  by (simp add: new_generation_def Animator_cancel_alt Let_def)

lemma animateForever_alt:
  "snd (animateForever w opts g s) =
     s\<lparr>calls := calls s @ (if isActive s g \<and> hw_characterRenderer s \<noteq> None
                               then [CharacterRendererCall Animate g] else []),
       loops := (if isActive s g \<and> hw_characterRenderer s \<noteq> None \<and> animate_gives_promise w (calls s)
                 then (loops s)(g \<mapsto> AwaitAnimate (get_prop (hw_options s ++ opts) ''delayBetweenLoops'') opts)
                 else loops s)\<rparr>"
  by (simp add: animateForever_def record_call_def Let_def split: option.splits)

lemma Quiz_cancel_alt:
  "Quiz_cancel w q s =
     s\<lparr>calls := calls s @ [QuizCancel q],
       generations := (if quiz_cancel_invalidates w then cancelled (lastAnimation s) (generations s)
                       else generations s)\<rparr>"
  by (simp add: Quiz_cancel_def Animator_cancel_alt record_call_def Let_def)

lemma cancelQuiz_alt:
  "cancelQuiz w s =
     s\<lparr>hw_quiz := None,
       calls := calls s @ cancel_call (hw_quiz s),
       generations := (if hw_quiz s = None \<or> \<not> quiz_cancel_invalidates w then generations s
                       else cancelled (lastAnimation s) (generations s))\<rparr>"
  by (simp add: cancelQuiz_def Quiz_cancel_alt cancel_call_def Let_def split: option.splits)

lemma setCharacter_alt:
  "setCharacter w c s =
     s\<lparr>hw_quiz := None,
       hw_char := c,
       calls := calls s @ cancel_call (hw_quiz s) @ [AnimatorCancel]
                @ destroy_call (hw_hanziWriterRenderer s) @ [LoadCharData (length (loads s)) c],
       generations := cancelled (lastAnimation s) (generations s),
       hw_hanziWriterRenderer := None,
       loads := loads s @ [(c, Pending)],
       loadingFailed := load_fails_at_once w (calls s @ cancel_call (hw_quiz s) @ [AnimatorCancel]
                @ destroy_call (hw_hanziWriterRenderer s)),
       hw_withDataPromise := length (loads s)\<rparr>"
  by (simp add: setCharacter_def cancelQuiz_alt Animator_cancel_alt loadCharData_def record_call_def
      destroy_call_def Let_def split: option.splits)

lemma setCharacter_then_alt:
  "setCharacter_then c ps s =
     (if loadingFailed s then s
      else s\<lparr>calls := calls s @ [GenerateCharacter c ps, NewPositioner, NewRenderer (renderers s),
                   NewStateManager, Mount (renderers s), Render (renderers s)],
             hw_character := Some (c, ps), hw_positioner := Some (c, ps),
             hw_stateManager := Some (c, ps),
             hw_hanziWriterRenderer := Some (renderers s), renderers := Suc (renderers s)\<rparr>)"
  by (simp add: setCharacter_then_def record_call_def Let_def)

lemma run_effect_alt:
  "fst (run_effect w f g s) =
     s\<lparr>calls := calls s @ effect_calls f (effect_made f g s) g, loops := effect_loops w f g s\<rparr>"
proof (cases f)
  case (AnimateForever opts)
  have "fst (run_effect w (AnimateForever opts) g s) = snd (animateForever w opts g s)"
    by (simp split: prod.splits returned.splits)
  then show ?thesis using AnimateForever by (simp add: animateForever_alt effect_calls_def)
qed (simp_all add: renderer_call_def record_call_def effect_calls_def split: option.splits)


lemma animate_alt:
  "animate w f opts s =
     (let n = length (generations s);
          s1 = s\<lparr>generations := cancelled (lastAnimation s) (generations s) @ [True],
                 lastAnimation := Some n, calls := calls s @ [AnimatorAnimate n]\<rparr>
      in s1\<lparr>calls := calls s1 @ effect_calls f (effect_made f n s1) n,
            loops := effect_loops w f n s1\<rparr>)"
  by (simp add: animate_def new_generation_alt run_effect_alt record_call_def Let_def)

lemma Quiz_animates_alt:
  "Quiz_animates s =
     (if hw_quiz s = None then s
      else s\<lparr>generations := cancelled (lastAnimation s) (generations s) @ [True],
             lastAnimation := Some (length (generations s))\<rparr>)"
  by (simp add: Quiz_animates_def new_generation_alt)

lemma withDataPromise_then_alt:
  "withDataPromise_then func s =
     s\<lparr>waiters := waiters s @ (if promise_state s (hw_withDataPromise s) = Pending
                                then [(hw_withDataPromise s, func)] else []),
       microtasks := microtasks s @ (if promise_state s (hw_withDataPromise s) = Fulfilled
                                then [Guarded func] else [])\<rparr>"
  by (simp add: withDataPromise_then_def Let_def split: pstate.splits)

lemma then_timeout_alt:
  "animateForever_then_timeout g s =
     (case loops s g of
        Some (AwaitAnimate d opts) \<Rightarrow>
          s\<lparr>calls := calls s @ [Timeout d g], loops := (loops s)(g \<mapsto> AwaitTimeout opts)\<rparr>
      | _ \<Rightarrow> s)"
  by (simp add: animateForever_then_timeout_def record_call_def split: option.splits loop_stage.splits)

lemma then_again_alt:
  "animateForever_then_again w g s =
     (case loops s g of
        Some (AwaitTimeout opts) \<Rightarrow>
          s\<lparr>calls := calls s @ (if isActive s g \<and> hw_characterRenderer s \<noteq> None
                                    then [CharacterRendererCall Animate g] else []),
            loops := (if isActive s g \<and> hw_characterRenderer s \<noteq> None
                         \<and> animate_gives_promise w (calls s)
                      then (loops s)(g \<mapsto> AwaitAnimate (get_prop (hw_options s ++ opts) ''delayBetweenLoops'') opts)
                      else (loops s)(g := None))\<rparr>
      | _ \<Rightarrow> s)"
proof (cases "loops s g")
  case None
  then show ?thesis by (simp add: animateForever_then_again_def)
next
  case (Some st)
  have a [simp]: "isActive (s\<lparr>loops := (loops s)(g := None)\<rparr>) g = isActive s g"
    by (simp add: isActive_def)
  show ?thesis using Some
    by (cases st) (auto simp: animateForever_then_again_def animateForever_alt)
qed

lemma forwardToQuiz_alt:
  "forwardToQuiz m a s = s\<lparr>calls := calls s @ (case hw_quiz s of None \<Rightarrow> [] | Some q \<Rightarrow> [QuizCall q m a])\<rparr>"
  by (simp add: forwardToQuiz_def record_call_def split: option.splits)

lemma canvas_listener_alt:
  "fst (canvas_listener m p s) =
     s\<lparr>calls := calls s @
        (case hw_quiz s of
           None \<Rightarrow> []
         | Some q \<Rightarrow> if isLoadingCharData s then []
                     else PreventDefault # (case p of Inl e \<Rightarrow> [] | Inr pt \<Rightarrow> [QuizCall q m (Some pt)]))\<rparr>"
  by (simp add: canvas_listener_def forwardToQuiz_alt record_call_def Let_def
      split: option.splits sum.splits)

lemma canvas_listener_calls:
  "\<exists>es. fst (canvas_listener m p s) = s\<lparr>calls := calls s @ es\<rparr> \<and> pointer_calls es"
  unfolding canvas_listener_alt
  by (rule exI, rule conjI, rule refl) (auto simp: pointer_calls_def split: option.splits sum.splits)

lemma forwardToQuiz_calls:
  "\<exists>es. forwardToQuiz m a s = s\<lparr>calls := calls s @ es\<rparr> \<and> pointer_calls es"
  unfolding forwardToQuiz_alt
  by (rule exI, rule conjI, rule refl) (auto simp: pointer_calls_def split: option.splits)

lemma do_pointer_calls:
  "\<exists>es. fst (do_pointer w e s) = s\<lparr>calls := calls s @ es\<rparr> \<and> pointer_calls es"
  by (cases e)
    (simp_all add: on_mousedown_def on_touchstart_def on_mousemove_def on_touchmove_def
      on_mouseup_def on_touchend_def canvas_listener_calls forwardToQuiz_calls)

section \<open>Invariants of runs\<close>

subsection \<open>At most one generation is active\<close>

lemmas summaries = setCharacter_alt cancelQuiz_alt animate_alt record_call_def
  withDataPromise_then_alt Quiz_animates_alt then_timeout_alt then_again_alt setCharacter_then_alt

lemmas api_defs = showCharacter_def hideCharacter_def animateCharacter_def loopCharacterAnimation_def
  showOutline_def hideOutline_def quiz_def animateWithData_def withData_def

text \<open>
  A property that every callback keeps, and that does not depend on the queue, survives
  the running of the queue; one that every step keeps survives a run.
\<close>

lemma drain_invariant:
  "(\<And>t s. P s \<Longrightarrow> P (run_task w t s)) \<Longrightarrow> (\<And>s ts. P (s\<lparr>microtasks := ts\<rparr>) = P s) \<Longrightarrow> P s
   \<Longrightarrow> P (drain w s)"
proof (induction w s rule: drain.induct)
  case (1 w s)
  show ?case
  proof (cases "microtasks s")
    case Nil
    then show ?thesis using "1.prems"(3) by (simp add: drain_Nil)
  next
    case (Cons t ts)
    have "P (s\<lparr>microtasks := ts\<rparr>)"
      using "1.prems"(3) by (simp add: "1.prems"(2))
    then have "P (run_task w t (s\<lparr>microtasks := ts\<rparr>))"
      by (rule "1.prems"(1))
    then have "P (drain w (run_task w t (s\<lparr>microtasks := ts\<rparr>)))"
      using "1.IH" [OF Cons] "1.prems"(1,2) by blast
    then show ?thesis using Cons by (simp add: drain_Cons)
  qed
qed

lemma run_invariant:
  assumes "\<And>i s. P s \<Longrightarrow> P (step w i s)" and "P s"
  shows "P (run w is s)"
  using assms(2) by (induction "is" arbitrary: s) (simp_all add: assms(1))

lemma one_active_fields:
  "one_active s \<longleftrightarrow>
     (\<forall>g < length (generations s). generations s ! g \<longrightarrow> lastAnimation s = Some g)"
  by (auto simp: one_active_iff isActive_def)

lemma one_active_microtasks [simp]: "one_active (s\<lparr>microtasks := ts\<rparr>) = one_active s"
  by (simp add: one_active_fields)

lemma one_active_hw_quiz [simp]: "one_active (s\<lparr>hw_quiz := q\<rparr>) = one_active s"
  by (simp add: one_active_fields)

lemma one_active_cancelQuiz: "one_active s \<Longrightarrow> one_active (cancelQuiz w s)"
  by (auto simp: one_active_fields summaries nth_cancelled)

lemma one_active_Quiz_animates: "one_active s \<Longrightarrow> one_active (Quiz_animates s)"
  by (auto simp: one_active_fields summaries nth_append nth_cancelled)

lemma one_active_setCharacter: "one_active s \<Longrightarrow> one_active (setCharacter w c s)"
  by (auto simp: one_active_fields summaries nth_cancelled)

lemma one_active_run_action: "one_active s \<Longrightarrow> one_active (run_action w a s)"
  by (cases a) (auto simp: one_active_fields summaries Let_def nth_append nth_cancelled)

lemma one_active_withData: "one_active s \<Longrightarrow> one_active (withData w a s)"
  by (auto simp: one_active_fields withData_def summaries Let_def nth_cancelled)

lemma one_active_run_task: "one_active s \<Longrightarrow> one_active (run_task w t s)"
  by (cases t) (simp_all add: one_active_withData one_active_run_action)

lemma one_active_do_call: "one_active s \<Longrightarrow> one_active (do_call w c s)"
  by (cases c)
    (simp_all add: showCharacter_def hideCharacter_def animateCharacter_def
      loopCharacterAnimation_def showOutline_def hideOutline_def quiz_def animateWithData_def
      one_active_withData one_active_cancelQuiz one_active_setCharacter)

lemma one_active_calls [simp]: "one_active (s\<lparr>calls := es\<rparr>) = one_active s"
  by (simp add: one_active_fields)

lemma one_active_load_settles: "one_active s \<Longrightarrow> one_active (load_settles p out f s)"
  by (auto simp: one_active_fields load_settles_def setCharacter_then_alt Let_def split: option.splits)

lemma one_active_handle: "one_active s \<Longrightarrow> one_active (handle w i s)"
proof (cases i)
  case (Call c)
  then show "one_active s \<Longrightarrow> ?thesis" by (simp add: one_active_do_call)
next
  case (Pointer e)
  obtain es where "fst (do_pointer w e s) = s\<lparr>calls := calls s @ es\<rparr>"
    using do_pointer_calls by blast
  with Pointer show "one_active s \<Longrightarrow> ?thesis" by simp
next
  case (LoadSettles p out f)
  then show "one_active s \<Longrightarrow> ?thesis" by (simp add: one_active_load_settles)
next
  case (AnimatePromiseFulfilled g)
  then show "one_active s \<Longrightarrow> ?thesis"
    by (auto simp: one_active_fields summaries split: option.splits loop_stage.splits)
next
  case (TimeoutElapsed g)
  then show "one_active s \<Longrightarrow> ?thesis"
    by (auto simp: one_active_fields summaries split: option.splits loop_stage.splits)
next
  case QuizAnimation
  then show "one_active s \<Longrightarrow> ?thesis" by (simp add: one_active_Quiz_animates)
qed

lemma one_active_step: "one_active s \<Longrightarrow> one_active (step w i s)"
  unfolding step_def
  by (rule drain_invariant [where P = one_active]) (simp_all add: one_active_run_task one_active_handle)

lemma one_active_run: "one_active s \<Longrightarrow> one_active (run w is s)"
  by (rule run_invariant [where P = one_active]) (simp_all add: one_active_step)

lemma one_active_HanziWriter: "one_active (HanziWriter w env st d opts c)"
proof -
  have b: "one_active (blank\<lparr>hw_options := x\<rparr>)" for x
    by (simp add: one_active_fields blank_def)
  have "one_active ((setCharacter w c (blank\<lparr>hw_options := x\<rparr>))\<lparr>hw_quiz := None\<rparr>)" for x
    using one_active_setCharacter [OF b, of w c x] by simp
  then show ?thesis
    unfolding HanziWriter_def Let_def split_beta
    by (intro drain_invariant [where P = one_active]) (simp_all add: one_active_run_task)
qed

subsection \<open>At most one quiz is live\<close>

lemma live_quizzes_append: "live_quizzes (es @ es') = foldl quiz_update (live_quizzes es) es'"
  by (simp add: live_quizzes_def)

lemma foldl_effect_calls [simp]: "foldl quiz_update l (effect_calls f a g) = l"
  by (cases f) (simp_all add: effect_calls_def)

lemma foldl_pointer_calls: "pointer_calls es \<Longrightarrow> foldl quiz_update l es = l"
  by (induction es arbitrary: l) (auto simp: pointer_calls_def)

lemma foldl_cancel_call:
  "foldl quiz_update l (cancel_call q) = (case q of None \<Rightarrow> l | Some n \<Rightarrow> filter (\<lambda>x. x \<noteq> n) l)"
  by (simp add: cancel_call_def split: option.splits)

lemma foldl_destroy_call [simp]: "foldl quiz_update l (destroy_call r) = l"
  by (simp add: destroy_call_def split: option.splits)

lemma quiz_ok_cancelQuiz: "quiz_ok s \<Longrightarrow> quiz_ok (cancelQuiz w s)"
  by (simp add: quiz_ok_def cancelQuiz_alt live_quizzes_append foldl_cancel_call split: option.splits)

lemma quiz_ok_setCharacter: "quiz_ok s \<Longrightarrow> quiz_ok (setCharacter w c s)"
  by (simp add: quiz_ok_def setCharacter_alt live_quizzes_append foldl_cancel_call split: option.splits)

lemma quiz_ok_run_action: "quiz_ok s \<Longrightarrow> quiz_ok (run_action w a s)"
  by (cases a)
    (simp_all add: quiz_ok_def summaries Let_def live_quizzes_append foldl_cancel_call
      split: option.splits)

lemma quiz_ok_withData: "quiz_ok s \<Longrightarrow> quiz_ok (withData w a s)"
  by (simp add: quiz_ok_def withData_def summaries Let_def live_quizzes_append foldl_cancel_call
      split: option.splits)

lemma quiz_ok_run_task: "quiz_ok s \<Longrightarrow> quiz_ok (run_task w t s)"
  by (cases t) (simp_all add: quiz_ok_withData quiz_ok_run_action)

lemma quiz_ok_do_call: "quiz_ok s \<Longrightarrow> quiz_ok (do_call w c s)"
  by (cases c)
    (simp_all add: showCharacter_def hideCharacter_def animateCharacter_def
      loopCharacterAnimation_def showOutline_def hideOutline_def quiz_def animateWithData_def
      quiz_ok_withData quiz_ok_cancelQuiz quiz_ok_setCharacter)

lemma quiz_ok_load_settles: "quiz_ok s \<Longrightarrow> quiz_ok (load_settles p out f s)"
  by (simp add: quiz_ok_def load_settles_def setCharacter_then_alt Let_def live_quizzes_append
      split: option.splits)

lemma quiz_ok_handle: "quiz_ok s \<Longrightarrow> quiz_ok (handle w i s)"
proof (cases i)
  case (Call c)
  then show "quiz_ok s \<Longrightarrow> ?thesis" by (simp add: quiz_ok_do_call)
next
  case (Pointer e)
  obtain es where "fst (do_pointer w e s) = s\<lparr>calls := calls s @ es\<rparr>" "pointer_calls es"
    using do_pointer_calls by blast
  with Pointer show "quiz_ok s \<Longrightarrow> ?thesis"
    by (simp add: quiz_ok_def live_quizzes_append foldl_pointer_calls)
next
  case (LoadSettles p out f)
  then show "quiz_ok s \<Longrightarrow> ?thesis" by (simp add: quiz_ok_load_settles)
next
  case (AnimatePromiseFulfilled g)
  then show "quiz_ok s \<Longrightarrow> ?thesis"
    by (simp add: quiz_ok_def summaries live_quizzes_append split: option.splits loop_stage.splits)
next
  case (TimeoutElapsed g)
  then show "quiz_ok s \<Longrightarrow> ?thesis"
    by (simp add: quiz_ok_def summaries live_quizzes_append split: option.splits loop_stage.splits)
next
  case QuizAnimation
  then show "quiz_ok s \<Longrightarrow> ?thesis" by (simp add: quiz_ok_def summaries)
qed

lemma quiz_ok_microtasks [simp]: "quiz_ok (s\<lparr>microtasks := ts\<rparr>) = quiz_ok s"
  by (simp add: quiz_ok_def)

lemma quiz_ok_step: "quiz_ok s \<Longrightarrow> quiz_ok (step w i s)"
  unfolding step_def
  by (rule drain_invariant [where P = quiz_ok]) (simp_all add: quiz_ok_run_task quiz_ok_handle)

lemma quiz_ok_run: "quiz_ok s \<Longrightarrow> quiz_ok (run w is s)"
  by (rule run_invariant [where P = quiz_ok]) (simp_all add: quiz_ok_step)

lemma quiz_ok_HanziWriter: "quiz_ok (HanziWriter w env st d opts c)"
proof -
  have "quiz_ok ((setCharacter w c (blank\<lparr>hw_options := x\<rparr>))\<lparr>hw_quiz := None\<rparr>)" for x
    by (simp add: quiz_ok_def setCharacter_alt blank_def live_quizzes_append foldl_cancel_call
        live_quizzes_def)
  then show ?thesis
    unfolding HanziWriter_def Let_def split_beta
    by (intro drain_invariant [where P = quiz_ok]) (simp_all add: quiz_ok_run_task)
qed

subsection \<open>A cancelled generation stays cancelled\<close>

lemma visual_effect_calls [simp]: "h \<noteq> g \<Longrightarrow> filter (visual g) (effect_calls f a h) = []"
  by (cases f) (simp_all add: effect_calls_def)

lemma scheduled_effect_calls [simp]: "h \<noteq> g \<Longrightarrow> filter (scheduled g) (effect_calls f a h) = []"
  by (cases f) (simp_all add: effect_calls_def)

lemma visual_cancel_call [simp]: "filter (visual g) (cancel_call q) = []"
  by (simp add: cancel_call_def split: option.splits)

lemma scheduled_cancel_call [simp]: "filter (scheduled g) (cancel_call q) = []"
  by (simp add: cancel_call_def split: option.splits)

lemma visual_destroy_call [simp]: "filter (visual g) (destroy_call q) = []"
  by (simp add: destroy_call_def split: option.splits)

lemma scheduled_destroy_call [simp]: "filter (scheduled g) (destroy_call q) = []"
  by (simp add: destroy_call_def split: option.splits)

lemma visual_pointer_calls: "pointer_calls es \<Longrightarrow> filter (visual g) es = []"
  by (induction es) (auto simp: pointer_calls_def)


lemmas stale_simps = stale_def isActive_def nth_append nth_cancelled

lemma dropped_microtasks [simp]: "dropped g vs (s\<lparr>microtasks := ts\<rparr>) = dropped g vs s"
  by (simp add: dropped_def stale_def)

lemma dropped_setCharacter: "dropped g vs s \<Longrightarrow> dropped g vs (setCharacter w c s)"
  by (simp add: dropped_def summaries stale_simps)

lemma dropped_cancelQuiz: "dropped g vs s \<Longrightarrow> dropped g vs (cancelQuiz w s)"
  by (simp add: dropped_def summaries stale_simps)

lemma dropped_run_action: "dropped g vs s \<Longrightarrow> dropped g vs (run_action w a s)"
  by (cases a) (auto simp: dropped_def summaries Let_def stale_simps)

lemma dropped_withData: "dropped g vs s \<Longrightarrow> dropped g vs (withData w a s)"
  by (simp add: dropped_def withData_def summaries Let_def stale_simps)

lemma dropped_run_task: "dropped g vs s \<Longrightarrow> dropped g vs (run_task w t s)"
  by (cases t) (simp_all add: dropped_withData dropped_run_action)

lemma dropped_do_call: "dropped g vs s \<Longrightarrow> dropped g vs (do_call w c s)"
  by (cases c)
    (simp_all add: showCharacter_def hideCharacter_def animateCharacter_def
      loopCharacterAnimation_def showOutline_def hideOutline_def quiz_def animateWithData_def
      dropped_withData dropped_cancelQuiz dropped_setCharacter)

lemma dropped_load_settles: "dropped g vs s \<Longrightarrow> dropped g vs (load_settles p out f s)"
  by (simp add: dropped_def load_settles_def setCharacter_then_alt Let_def stale_def
      split: option.splits)

lemma dropped_handle: "dropped g vs s \<Longrightarrow> dropped g vs (handle w i s)"
proof (cases i)
  case (Call c)
  then show "dropped g vs s \<Longrightarrow> ?thesis" by (simp add: dropped_do_call)
next
  case (Pointer e)
  obtain es where "fst (do_pointer w e s) = s\<lparr>calls := calls s @ es\<rparr>" "pointer_calls es"
    using do_pointer_calls by blast
  with Pointer show "dropped g vs s \<Longrightarrow> ?thesis"
    by (simp add: dropped_def stale_def visual_pointer_calls)
next
  case (LoadSettles p out f)
  then show "dropped g vs s \<Longrightarrow> ?thesis" by (simp add: dropped_load_settles)
next
  case (AnimatePromiseFulfilled h)
  then show "dropped g vs s \<Longrightarrow> ?thesis"
    by (simp add: dropped_def summaries stale_simps split: option.splits loop_stage.splits)
next
  case (TimeoutElapsed h)
  then show "dropped g vs s \<Longrightarrow> ?thesis"
    by (auto simp: dropped_def summaries stale_simps split: option.splits loop_stage.splits)
next
  case QuizAnimation
  then show "dropped g vs s \<Longrightarrow> ?thesis" by (simp add: dropped_def summaries stale_simps)
qed

lemma dropped_drain: "dropped g vs s \<Longrightarrow> dropped g vs (drain w s)"
  by (rule drain_invariant [where P = "dropped g vs"]) (simp_all add: dropped_run_task)

lemma dropped_step: "dropped g vs s \<Longrightarrow> dropped g vs (step w i s)"
  unfolding step_def by (intro dropped_drain dropped_handle)

lemma dropped_run: "dropped g vs s \<Longrightarrow> dropped g vs (run w is s)"
  by (rule run_invariant [where P = "dropped g vs"]) (simp_all add: dropped_step)

lemma ended_microtasks [simp]: "ended g vs (s\<lparr>microtasks := ts\<rparr>) = ended g vs s"
  by (simp add: ended_def stale_def)












lemma winding_down_microtasks [simp]: "winding_down g vs pd (s\<lparr>microtasks := ts\<rparr>) = winding_down g vs pd s"
  by (simp add: winding_down_def pending_delay_def stale_def)












subsection \<open>No action while loading has failed\<close>

lemma started_cancel_call [simp]: "filter started (cancel_call q) = []"
  by (simp add: cancel_call_def split: option.splits)

lemma started_destroy_call [simp]: "filter started (destroy_call q) = []"
  by (simp add: destroy_call_def split: option.splits)

lemma started_pointer_calls: "pointer_calls es \<Longrightarrow> filter started es = []"
  by (induction es) (auto simp: pointer_calls_def)

lemma loadingFailed_run_action [simp]: "loadingFailed (run_action w a s) = loadingFailed s"
  by (cases a) (simp_all add: summaries Let_def)

lemma loadingFailed_run_task [simp]: "loadingFailed (run_task w t s) = loadingFailed s"
  by (cases t) (simp_all add: withData_def summaries)

lemma loadingFailed_drain [simp]: "loadingFailed (drain w s) = loadingFailed s"
  by (rule drain_invariant [where P = "\<lambda>x. loadingFailed x = loadingFailed s"]) simp_all

lemma drain_failed: "loadingFailed s \<Longrightarrow> drain w s = s\<lparr>microtasks := []\<rparr>"
proof (induction w s rule: drain.induct)
  case (1 w s)
  show ?case
  proof (cases "microtasks s")
    case Nil
    then show ?thesis by (simp add: drain_Nil)
  next
    case (Cons t ts)
    have "run_task w t (s\<lparr>microtasks := ts\<rparr>) = s\<lparr>microtasks := ts\<rparr>"
      using "1.prems" by (cases t) simp_all
    then show ?thesis using "1.IH" [OF Cons] "1.prems" Cons by (simp add: drain_Cons)
  qed
qed

lemma started_do_call: "filter started (calls (do_call w c s)) = filter started (calls s)"
  by (cases c) (simp_all add: api_defs summaries Let_def)

lemma started_handle: "filter started (calls (handle w i s)) = filter started (calls s)"
proof (cases i)
  case (Call c)
  then show ?thesis by (simp add: started_do_call)
next
  case (Pointer e)
  obtain es where "fst (do_pointer w e s) = s\<lparr>calls := calls s @ es\<rparr>" "pointer_calls es"
    using do_pointer_calls by blast
  with Pointer show ?thesis by (simp add: started_pointer_calls)
next
  case (LoadSettles p out f)
  then show ?thesis by (simp add: load_settles_def setCharacter_then_alt Let_def split: option.splits)
next
  case (AnimatePromiseFulfilled h)
  then show ?thesis by (simp add: summaries split: option.splits loop_stage.splits)
next
  case (TimeoutElapsed h)
  then show ?thesis by (simp add: summaries split: option.splits loop_stage.splits)
next
  case QuizAnimation
  then show ?thesis by (simp add: summaries)
qed

lemma step_failed:
  "loadingFailed (step w i s) \<Longrightarrow> filter started (calls (step w i s)) = filter started (calls s)"
proof -
  assume "loadingFailed (step w i s)"
  then have f: "loadingFailed (handle w i s)" by (simp add: step_def)
  then have "step w i s = (handle w i s)\<lparr>microtasks := []\<rparr>"
    unfolding step_def by (rule drain_failed)
  then show ?thesis by (simp add: started_handle)
qed

lemma reload_first:
  assumes "loadingFailed s" "microtasks s = []" "action_of c = Some a"
  shows "filter started (calls (step w (Call c) s)) = filter started (calls s)
    \<and> LoadCharData (length (loads s)) (hw_char s) \<in> set (calls (step w (Call c) s))
    \<and> hw_withDataPromise (step w (Call c) s) = length (loads s)
    \<and> promise_state (step w (Call c) s) (length (loads s)) = Pending
    \<and> waiters (step w (Call c) s) =
         waiters s @ (if loadingFailed (step w (Call c) s) then [] else [(length (loads s), a)])
    \<and> microtasks (step w (Call c) s) = []"
  using assms
  by (cases c)
    (simp_all add: step_def api_defs summaries drain_Nil drain_Cons Let_def promise_state_def)

lemma load_failure:
  assumes "p < length (loads s)" "snd (loads s ! p) = Pending"
  shows "promise_state (step w (LoadSettles p (Some pathStrings) True) s) p = Fulfilled
    \<and> loadingFailed (step w (LoadSettles p (Some pathStrings) True) s)
    \<and> calls (step w (LoadSettles p (Some pathStrings) True) s) = calls s
    \<and> hw_character (step w (LoadSettles p (Some pathStrings) True) s) = hw_character s
    \<and> hw_positioner (step w (LoadSettles p (Some pathStrings) True) s) = hw_positioner s
    \<and> hw_stateManager (step w (LoadSettles p (Some pathStrings) True) s) = hw_stateManager s
    \<and> hw_hanziWriterRenderer (step w (LoadSettles p (Some pathStrings) True) s) = hw_hanziWriterRenderer s"
proof -
  have f: "loadingFailed (handle w (LoadSettles p (Some pathStrings) True) s)"
    using assms by (simp add: load_settles_def setCharacter_then_alt Let_def)
  have "step w (LoadSettles p (Some pathStrings) True) s =
      (handle w (LoadSettles p (Some pathStrings) True) s)\<lparr>microtasks := []\<rparr>"
    unfolding step_def using f by (rule drain_failed)
  then show ?thesis
    using assms by (simp add: load_settles_def setCharacter_then_alt Let_def promise_state_def)
qed

subsection \<open>The quiz and the methods that show and hide\<close>

lemma quiz_event_effect_calls [simp]: "filter quiz_event (effect_calls f a g) = []"
  by (cases f) (simp_all add: effect_calls_def)

















section \<open>Example runs\<close>

lemmas run_simps = step_def drain_Nil drain_Cons summaries api_defs load_settles_def Let_def
  promise_state_def cancel_call_def destroy_call_def quiet_world_def split_beta cancelled_def
  effect_calls_def

lemma first_writer_eq:
  "first_writer =
     blank\<lparr>hw_options := deref (snd (assignOptions plain_browser [defaultOptions False, Map.empty] 0 1))
                            (fst (assignOptions plain_browser [defaultOptions False, Map.empty] 0 1)),
           hw_char := ''x'', calls := [AnimatorCancel, LoadCharData 0 ''x''],
           loads := [(''x'', Pending)]\<rparr>"
  by (simp add: first_writer_def HanziWriter_def blank_def run_simps)

lemmas example_defs = loaded_writer_def quiz_writer_def looping_writer_def failed_writer_def
  first_writer_eq blank_def


section \<open>Animations\<close>

lemma stale_after_animate:
  "one_active s \<Longrightarrow> isActive s g \<Longrightarrow> dropped g (filter (visual g) (calls s)) (animate w func opts s)"
  by (auto simp: one_active_fields dropped_def summaries Let_def stale_simps)

text \<open>
  C1. In every state that a run of the writer reaches, at most one generation is active
  (the writer has one animator, which all its animations and its quiz share). Starting an
  animation through \<open>_animate\<close> cancels the generation that was active and makes the new
  one the only active one; from then on the cancelled generation is never active again
  and no call on a renderer is made for it, whatever happens later.
\<close>

theorem animate_cancels_previous_generation:
  "one_active (run w inputs (HanziWriter w env st defaults options character))
   \<and> length (active_generations (run w inputs (HanziWriter w env st defaults options character))) \<le> 1
   \<and> (one_active s \<and> isActive s g \<longrightarrow>
        \<not> isActive (animate w func opts s) g
        \<and> (\<forall>h. isActive (animate w func opts s) h \<longleftrightarrow> h = length (generations s))
        \<and> (\<forall>later. \<not> isActive (run w later (drain w (animate w func opts s))) g
                \<and> filter (visual g) (calls (run w later (drain w (animate w func opts s))))
                    = filter (visual g) (calls s)))"
proof -
  have r: "one_active (run w inputs (HanziWriter w env st defaults options character))"
    by (rule one_active_run) (rule one_active_HanziWriter)
  have l: "length (active_generations (run w inputs (HanziWriter w env st defaults options character))) \<le> 1"
    using r by (rule one_active_length)
  have a: "\<not> isActive (animate w func opts s) g
        \<and> (\<forall>h. isActive (animate w func opts s) h \<longleftrightarrow> h = length (generations s))
        \<and> (\<forall>later. \<not> isActive (run w later (drain w (animate w func opts s))) g
                \<and> filter (visual g) (calls (run w later (drain w (animate w func opts s))))
                    = filter (visual g) (calls s))"
    if o: "one_active s" and g: "isActive s g"
  proof -
    have d: "dropped g (filter (visual g) (calls s)) (animate w func opts s)"
      using o g by (rule stale_after_animate)
    have 1: "\<not> isActive (animate w func opts s) g"
      using d by (simp add: dropped_def stale_def isActive_def)
    have 2: "\<forall>h. isActive (animate w func opts s) h \<longleftrightarrow> h = length (generations s)"
      using o by (auto simp: one_active_fields isActive_def summaries Let_def nth_append nth_cancelled)
    have 3: "\<not> isActive (run w later (drain w (animate w func opts s))) g
                \<and> filter (visual g) (calls (run w later (drain w (animate w func opts s))))
                    = filter (visual g) (calls s)" for later
    proof -
      have "dropped g (filter (visual g) (calls s)) (run w later (drain w (animate w func opts s)))"
        by (intro dropped_run dropped_drain d)
      then show ?thesis by (simp add: dropped_def stale_def isActive_def)
    qed
    from 1 2 3 show ?thesis by blast
  qed
  from r l a show ?thesis by blast
qed

text \<open>
  C1, witness: a character is shown while the loop of generation 0 is running.
\<close>

theorem animate_cancels_previous_generation_witness:
  "one_active looping_writer \<and> isActive looping_writer 0
   \<and> \<not> isActive (animate quiet_world CharacterShow Map.empty looping_writer) 0
   \<and> isActive (animate quiet_world CharacterShow Map.empty looping_writer) 1
   \<and> filter (visual 0) (calls looping_writer) = [CharacterRendererCall Animate 0]
   \<and> filter (visual 0)
        (calls (run quiet_world [AnimatePromiseFulfilled 0, TimeoutElapsed 0]
           (drain quiet_world (animate quiet_world CharacterShow Map.empty looping_writer))))
       = [CharacterRendererCall Animate 0]"
proof -
  have a: "generations looping_writer = [True]" "lastAnimation looping_writer = Some 0"
    "filter (visual 0) (calls looping_writer) = [CharacterRendererCall Animate 0]"
    by (simp_all add: example_defs run_simps isActive_def)
  have o: "one_active looping_writer"
    by (simp add: one_active_fields a)
  have g: "isActive looping_writer 0"
    by (simp add: isActive_def a)
  note t = animate_cancels_previous_generation [where s = looping_writer and g = 0
      and w = quiet_world and func = CharacterShow and opts = Map.empty]
  have 1: "\<not> isActive (animate quiet_world CharacterShow Map.empty looping_writer) 0"
    using t o g by blast
  have 2: "isActive (animate quiet_world CharacterShow Map.empty looping_writer) 1"
    using t o g by (simp add: a)
  have 3: "filter (visual 0)
        (calls (run quiet_world [AnimatePromiseFulfilled 0, TimeoutElapsed 0]
           (drain quiet_world (animate quiet_world CharacterShow Map.empty looping_writer))))
       = filter (visual 0) (calls looping_writer)"
    using t o g by blast
  show ?thesis
    using o g 1 2 3 a(3) by simp
qed




section \<open>A new character\<close>



section \<open>Failed loads\<close>

text \<open>
  C4. A call of \<open>quiz\<close>, \<open>showCharacter\<close>, \<open>hideCharacter\<close>, \<open>animateCharacter\<close>,
  \<open>loopCharacterAnimation\<close>, \<open>showOutline\<close> or \<open>hideOutline\<close> made while loading has
  failed runs no action: it starts a reload, and the action waits for the promise of that
  reload or is dropped. No step that ends with \<open>loadingFailed\<close> set runs an action, and a
  callback of \<open>_withData\<close> that finds it set does nothing. When a load fails, the
  promise of \<open>setCharacter\<close> is fulfilled and no character, positioner, state manager or
  renderer is made.
\<close>

theorem no_action_while_loading_failed:
  "(loadingFailed s \<and> microtasks s = [] \<and> action_of c = Some a \<longrightarrow>
      filter started (calls (step w (Call c) s)) = filter started (calls s)
      \<and> LoadCharData (length (loads s)) (hw_char s) \<in> set (calls (step w (Call c) s))
      \<and> hw_withDataPromise (step w (Call c) s) = length (loads s)
      \<and> promise_state (step w (Call c) s) (length (loads s)) = Pending
      \<and> waiters (step w (Call c) s) =
           waiters s @ (if loadingFailed (step w (Call c) s) then [] else [(length (loads s), a)])
      \<and> microtasks (step w (Call c) s) = [])
   \<and> (loadingFailed (step w i s) \<longrightarrow>
        filter started (calls (step w i s)) = filter started (calls s))
   \<and> (loadingFailed s \<longrightarrow> run_task w t s = s)
   \<and> (p < length (loads s) \<and> snd (loads s ! p) = Pending \<longrightarrow>
        promise_state (step w (LoadSettles p (Some pathStrings) True) s) p = Fulfilled
        \<and> loadingFailed (step w (LoadSettles p (Some pathStrings) True) s)
        \<and> calls (step w (LoadSettles p (Some pathStrings) True) s) = calls s
        \<and> hw_character (step w (LoadSettles p (Some pathStrings) True) s) = hw_character s
        \<and> hw_positioner (step w (LoadSettles p (Some pathStrings) True) s) = hw_positioner s
        \<and> hw_stateManager (step w (LoadSettles p (Some pathStrings) True) s) = hw_stateManager s
        \<and> hw_hanziWriterRenderer (step w (LoadSettles p (Some pathStrings) True) s)
            = hw_hanziWriterRenderer s)"
proof -
  have t: "loadingFailed s \<longrightarrow> run_task w t s = s"
    by (cases t) simp_all
  show ?thesis
    using reload_first [of s c a w] step_failed [of w i s] t load_failure [of p s w pathStrings]
    by blast
qed

text \<open>
  C4, witness: \<open>showCharacter\<close> on a writer whose load has failed, and the failure of
  the first load.
\<close>

theorem no_action_while_loading_failed_witness:
  "loadingFailed failed_writer \<and> microtasks failed_writer = []
   \<and> action_of (ShowCharacter Map.empty) = Some (AnimateAction CharacterShow Map.empty)
   \<and> filter started (calls (step quiet_world (Call (ShowCharacter Map.empty)) failed_writer)) = []
   \<and> waiters (step quiet_world (Call (ShowCharacter Map.empty)) failed_writer)
       = [(1, AnimateAction CharacterShow Map.empty)]
   \<and> (0::nat) < length (loads first_writer) \<and> snd (loads first_writer ! 0) = Pending
   \<and> calls (step quiet_world (LoadSettles 0 (Some []) True) first_writer) = calls first_writer
   \<and> hw_character (step quiet_world (LoadSettles 0 (Some []) True) first_writer) = None
   \<and> filter started
        (calls (run quiet_world [Call (ShowCharacter Map.empty), LoadSettles 1 (Some []) True] failed_writer))
       = []
   \<and> filter started
        (calls (run quiet_world [Call (ShowCharacter Map.empty), LoadSettles 1 (Some []) False] failed_writer))
       = [AnimatorAnimate 0]"
proof -
  have a: "loadingFailed failed_writer" "microtasks failed_writer = []"
    "filter started (calls failed_writer) = []" "waiters failed_writer = []"
    "length (loads failed_writer) = 1"
    by (simp_all add: example_defs run_simps)
  have l: "\<not> loadingFailed (step quiet_world (Call (ShowCharacter Map.empty)) failed_writer)"
    by (simp add: example_defs run_simps)
  have b: "(0::nat) < length (loads first_writer)" "snd (loads first_writer ! 0) = Pending"
    "hw_character first_writer = None"
    by (simp_all add: example_defs)
  have r: "filter started
        (calls (run quiet_world [Call (ShowCharacter Map.empty), LoadSettles 1 (Some []) True] failed_writer))
       = []"
    "filter started
        (calls (run quiet_world [Call (ShowCharacter Map.empty), LoadSettles 1 (Some []) False] failed_writer))
       = [AnimatorAnimate 0]"
    by (simp_all add: example_defs run_simps isActive_def)
  show ?thesis
    using a b l r
      no_action_while_loading_failed [where s = failed_writer and c = "ShowCharacter Map.empty"
        and a = "AnimateAction CharacterShow Map.empty" and w = quiet_world]
      no_action_while_loading_failed [where s = first_writer and w = quiet_world and p = 0
        and pathStrings = "[]"]
    by simp
qed

section \<open>Quizzes and pointer input\<close>

lemma quiz_starts_at_once:
  assumes "\<not> loadingFailed s" "promise_state s (hw_withDataPromise s) = Fulfilled" "microtasks s = []"
  shows "step w (Call (Quiz quizOptions)) s = run_action w (QuizAction quizOptions) s"
  using assms
  by (simp add: step_def api_defs summaries drain_Nil drain_Cons Let_def)

text \<open>
  C5. The body of \<open>quiz\<close> cancels the quiz there is (if any) and only then constructs
  and stores the new one; with the data loaded, a call of \<open>quiz\<close> runs this body at once.
  In every state that a run of the writer reaches, the quizzes constructed and not yet
  cancelled are exactly the one stored in \<open>this._quiz\<close>: at most one.
\<close>

theorem quiz_cancels_existing_quiz:
  "calls (run_action w (QuizAction quizOptions) s) =
      calls s @ (case hw_quiz s of None \<Rightarrow> [] | Some q \<Rightarrow> [QuizCancel q]) @ [QuizNew (quizzes s)]
   \<and> hw_quiz (run_action w (QuizAction quizOptions) s) = Some (quizzes s)
   \<and> (\<not> loadingFailed s \<and> promise_state s (hw_withDataPromise s) = Fulfilled \<and> microtasks s = []
        \<longrightarrow> step w (Call (Quiz quizOptions)) s = run_action w (QuizAction quizOptions) s)
   \<and> live_quizzes (calls (run w inputs (HanziWriter w env st defaults options character))) =
        (case hw_quiz (run w inputs (HanziWriter w env st defaults options character)) of
           None \<Rightarrow> [] | Some q \<Rightarrow> [q])
   \<and> length (live_quizzes (calls (run w inputs (HanziWriter w env st defaults options character)))) \<le> 1"
proof -
  have a: "calls (run_action w (QuizAction quizOptions) s) =
      calls s @ (case hw_quiz s of None \<Rightarrow> [] | Some q \<Rightarrow> [QuizCancel q]) @ [QuizNew (quizzes s)]"
    by (simp add: cancelQuiz_alt record_call_def cancel_call_def Let_def)
  have b: "hw_quiz (run_action w (QuizAction quizOptions) s) = Some (quizzes s)"
    by (simp add: cancelQuiz_alt record_call_def Let_def)
  have "quiz_ok (run w inputs (HanziWriter w env st defaults options character))"
    by (rule quiz_ok_run) (rule quiz_ok_HanziWriter)
  then have c: "live_quizzes (calls (run w inputs (HanziWriter w env st defaults options character))) =
        (case hw_quiz (run w inputs (HanziWriter w env st defaults options character)) of
           None \<Rightarrow> [] | Some q \<Rightarrow> [q])"
    by (simp add: quiz_ok_def)
  have d: "length (live_quizzes (calls (run w inputs (HanziWriter w env st defaults options character)))) \<le> 1"
    unfolding c by (simp split: option.splits)
  from a b c d quiz_starts_at_once [of s w quizOptions] show ?thesis by blast
qed

text \<open>
  C5, witness: a second call of \<open>quiz\<close> while a quiz is active.
\<close>

theorem quiz_cancels_existing_quiz_witness:
  "\<not> loadingFailed quiz_writer
   \<and> promise_state quiz_writer (hw_withDataPromise quiz_writer) = Fulfilled
   \<and> microtasks quiz_writer = []
   \<and> hw_quiz quiz_writer = Some 0
   \<and> calls (step quiet_world (Call (Quiz Map.empty)) quiz_writer)
       = calls quiz_writer @ [QuizCancel 0, QuizNew 1]
   \<and> hw_quiz (step quiet_world (Call (Quiz Map.empty)) quiz_writer) = Some 1
   \<and> live_quizzes (calls (step quiet_world (Call (Quiz Map.empty)) quiz_writer)) = [1]"
proof -
  have a: "hw_quiz quiz_writer = Some 0" "microtasks quiz_writer = []" "\<not> loadingFailed quiz_writer"
    "promise_state quiz_writer (hw_withDataPromise quiz_writer) = Fulfilled"
    "quizzes quiz_writer = 1" "live_quizzes (calls quiz_writer) = [0]"
    by (simp_all add: example_defs run_simps live_quizzes_def)
  note t = quiz_cancels_existing_quiz [where s = quiz_writer and w = quiet_world
      and quizOptions = Map.empty and inputs = "[]"]
  have e: "step quiet_world (Call (Quiz Map.empty)) quiz_writer
      = run_action quiet_world (QuizAction Map.empty) quiz_writer"
    using t a by blast
  have c: "calls (run_action quiet_world (QuizAction Map.empty) quiz_writer)
      = calls quiz_writer @ [QuizCancel 0, QuizNew 1]"
    using t a by simp
  have q: "hw_quiz (run_action quiet_world (QuizAction Map.empty) quiz_writer) = Some 1"
    using t a by simp
  show ?thesis
    unfolding e c q using a by (simp add: live_quizzes_append)
qed

text \<open>
  C6. While \<open>this._quiz\<close> is null, each of the six listeners and \<open>_forwardToQuiz\<close>
  with any method return without an effect and without an error, and a pointer event
  leaves the writer as it was.
\<close>

theorem pointer_ignored_without_quiz:
  assumes "hw_quiz s = None"
  shows "on_mousedown w evt s = (s, None) \<and> on_touchstart w touches s = (s, None)
    \<and> on_mousemove w evt s = (s, None) \<and> on_touchmove w touches s = (s, None)
    \<and> on_mouseup s = (s, None) \<and> on_touchend s = (s, None)
    \<and> forwardToQuiz m args s = s
    \<and> do_pointer w e s = (s, None)
    \<and> handle w (Pointer e) s = s
    \<and> (microtasks s = [] \<longrightarrow> step w (Pointer e) s = s)"
proof -
  have l: "\<And>m p. canvas_listener m p s = (s, None)"
    using assms by (simp add: canvas_listener_def)
  have f: "\<And>m a. forwardToQuiz m a s = s"
    using assms by (simp add: forwardToQuiz_def)
  have p: "do_pointer w e s = (s, None)"
    by (cases e)
      (simp_all add: on_mousedown_def on_touchstart_def on_mousemove_def on_touchmove_def
        on_mouseup_def on_touchend_def l f)
  show ?thesis
    by (simp add: on_mousedown_def on_touchstart_def on_mousemove_def on_touchmove_def
        on_mouseup_def on_touchend_def l f p step_def drain_Nil)
qed

text \<open>
  C6, witness: the writer whose data are loaded and which has no quiz.
\<close>

theorem pointer_ignored_without_quiz_witness:
  "hw_quiz loaded_writer = None
   \<and> on_mousedown quiet_world (3, 4) loaded_writer = (loaded_writer, None)
   \<and> on_touchmove quiet_world [] loaded_writer = (loaded_writer, None)
   \<and> on_mouseup loaded_writer = (loaded_writer, None)
   \<and> forwardToQuiz continueUserStroke (Some (3, 4)) loaded_writer = loaded_writer"
proof -
  have q: "hw_quiz loaded_writer = None"
    by (simp add: example_defs run_simps)
  show ?thesis
    using q pointer_ignored_without_quiz [OF q, where w = quiet_world and evt = "(3, 4)"
        and touches = "[]" and m = continueUserStroke and args = "Some (3, 4)"]
    by simp
qed

text \<open>
  C7. \<open>cancelQuiz\<close> is idempotent: from any state, calling it twice leaves the state
  that calling it once leaves; the first call cancels the quiz, if there is one, and
  leaves the reference null.
\<close>

theorem cancelQuiz_idempotent:
  "cancelQuiz w (cancelQuiz w s) = cancelQuiz w s
   \<and> hw_quiz (cancelQuiz w s) = None
   \<and> calls (cancelQuiz w s) = calls s @ (case hw_quiz s of None \<Rightarrow> [] | Some q \<Rightarrow> [QuizCancel q])"
  by (simp add: cancelQuiz_def Quiz_cancel_def Animator_cancel_def record_call_def Let_def
      split: option.splits)

section \<open>The quiz and the methods of the API\<close>



end
